theory Spec2Isabelle
  imports Main "HOL-Library.Word"
begin

section \<open>JavaScript values\<close>

text \<open>
  A JavaScript string is a sequence of UTF-16 code units. The literals of the source
  are ASCII, written here through \<open>js\<close>.
\<close>

type_synonym code_unit = "16 word"
type_synonym js_string = "code_unit list"

definition js :: "string \<Rightarrow> js_string" where
  "js s = map of_char s"

text \<open>
  \<open>String.prototype.trim\<close> removes the WhiteSpace and LineTerminator code points of
  ECMAScript from both ends: TAB, VT, FF, SP, NBSP, ZWNBSP, the Unicode space separators,
  LF, CR, LS and PS.
\<close>

definition isWhiteSpace :: "code_unit \<Rightarrow> bool" where
  "isWhiteSpace c \<longleftrightarrow>
     c = 0x09 \<or> c = 0x0A \<or> c = 0x0B \<or> c = 0x0C \<or> c = 0x0D \<or> c = 0x20 \<or> c = 0xA0 \<or>
     c = 0x1680 \<or> (0x2000 \<le> c \<and> c \<le> 0x200A) \<or> c = 0x2028 \<or> c = 0x2029 \<or>
     c = 0x202F \<or> c = 0x205F \<or> c = 0x3000 \<or> c = 0xFEFF"

definition dropWhileEnd :: "('a \<Rightarrow> bool) \<Rightarrow> 'a list \<Rightarrow> 'a list" where
  "dropWhileEnd P s = rev (dropWhile P (rev s))"

definition trim :: "js_string \<Rightarrow> js_string" where
  "trim s = dropWhileEnd isWhiteSpace (dropWhile isWhiteSpace s)"

definition startsWith :: "js_string \<Rightarrow> js_string \<Rightarrow> bool" where
  "startsWith s p \<longleftrightarrow> take (length p) s = p"

fun includes_js :: "js_string \<Rightarrow> js_string \<Rightarrow> bool" where
  "includes_js [] p = (p = [])"
| "includes_js (c # s) p = (startsWith (c # s) p \<or> includes_js s p)"

text \<open>\<open>s.replace(/\/+/g, '/')\<close>: every maximal run of slashes becomes one slash.\<close>

fun replace_slashes :: "js_string \<Rightarrow> js_string" where
  "replace_slashes (c # d # s) =
     (if c = 0x2F \<and> d = 0x2F then replace_slashes (d # s) else c # replace_slashes (d # s))"
| "replace_slashes s = s"

text \<open>
  The values that reach the handlers as query parameters, parsed bodies and token claims
  are JSON values; a property that is absent reads as \<open>undefined\<close>, here \<open>None\<close>.
  An object lists its properties in enumeration order. A number is kept as the text that
  ECMAScript's Number::toString gives it (\<open>0\<close>, \<open>-12\<close>, \<open>0.5\<close>, \<open>1e+21\<close>): the handlers
  read a number only through its truthiness and through \<open>JSON.stringify\<close>, and both are
  functions of that text.
\<close>

datatype json =
    JNull
  | JBool bool
  | JNum js_string
  | JStr js_string
  | JArr "json list"
  | JObj "(js_string \<times> json) list"

type_synonym js_value = "json option"

fun truthy :: "js_value \<Rightarrow> bool" where
  "truthy None = False"
| "truthy (Some JNull) = False"
| "truthy (Some (JBool b)) = b"
| "truthy (Some (JNum n)) = (n \<noteq> js ''0'' \<and> n \<noteq> js ''NaN'')"
| "truthy (Some (JStr s)) = (s \<noteq> [])"
| "truthy (Some (JArr xs)) = True"
| "truthy (Some (JObj kvs)) = True"

text \<open>Property access \<open>v.k\<close> for a name \<open>k\<close> that is not an array index or \<open>length\<close>.\<close>

fun get_prop :: "js_value \<Rightarrow> js_string \<Rightarrow> js_value" where
  "get_prop (Some (JObj kvs)) k = map_of kvs k"
| "get_prop v k = None"

section \<open>The URL constructor of the platform\<close>

text \<open>
  \<open>validateReturnTo\<close> reads four getters of a parsed URL. The parser itself
  (\<open>new URL(input)\<close>, which throws on failure) belongs to the platform, so the validator
  takes it as a parameter \<open>new_URL\<close>; \<open>None\<close> stands for the thrown TypeError.
\<close>

record URL =
  origin :: js_string
  pathname :: js_string
  search :: js_string
  hash :: js_string

type_synonym url_parser = "js_string \<Rightarrow> URL option"

text \<open>
  Without a base URL the URL Standard's parser fails on every input that does not begin
  (after its own stripping of C0 controls and spaces) with a scheme, that is with an ASCII
  letter. The validator relies on one consequence: an input that is empty or begins with a
  slash does not parse.
\<close>

definition requires_scheme :: "url_parser \<Rightarrow> bool" where
  "requires_scheme new_URL \<longleftrightarrow>
     (\<forall>s. new_URL s \<noteq> None \<longrightarrow> s \<noteq> [] \<and> hd s \<noteq> 0x2F)"

section \<open>lib/auth: validateReturnTo\<close>

definition validateReturnTo :: "url_parser \<Rightarrow> js_value \<Rightarrow> js_string \<Rightarrow> js_string" where
  "validateReturnTo new_URL returnTo baseUrl =
     (case returnTo of
        Some (JStr s) \<Rightarrow>
          if s = [] then js ''/''
          else
            let trimmed = trim s;
                normalized = replace_slashes trimmed
            in
              if startsWith trimmed (js ''/'') \<and> \<not> startsWith trimmed (js ''//'') \<and>
                 \<not> includes_js normalized (js ''..'') \<and> \<not> includes_js normalized (js [CHR 0x5C])
              then normalized
              else
                (case new_URL trimmed of
                   None \<Rightarrow> js ''/''
                 | Some url \<Rightarrow>
                     (case new_URL baseUrl of
                        None \<Rightarrow> js ''/''
                      | Some base \<Rightarrow>
                          if origin url = origin base
                          then pathname url @ search url @ hash url
                          else js ''/''))
      | _ \<Rightarrow> js ''/'')"

section \<open>The URL parser, for evaluation\<close>

text \<open>
  Modelled from the URL Standard (the algorithm behind \<open>new URL(input)\<close> with no base):
  the parser of the platform on the inputs this development evaluates. It follows the
  standard's states for the special schemes with a port (http, https, ws, wss, ftp):
  stripping of C0 controls and spaces, removal of tabs and newlines, scheme, the slashes
  before the authority, host and port, dot segments and percent-encoding of the path, query
  and fragment. Credentials before the host are skipped: they are no part of the four
  getters. The path percent-encode set is the one Node 18 applies (it leaves \<open>^\<close> as it
  is). The parser answers \<open>None\<close> where the standard fails, and also on the inputs it does
  not cover: other schemes (\<open>file:\<close>, \<open>blob:\<close> and the schemes that are not special), and
  hosts that are not plain lower- or upper-case DNS names (IP addresses, empty labels,
  percent-escapes, non-ASCII and \<open>xn--\<close> labels). The theorems on \<open>validateReturnTo\<close>
  hold for every parser; this one serves where a concrete URL is evaluated.
\<close>

definition isC0ControlOrSpace :: "code_unit \<Rightarrow> bool" where
  "isC0ControlOrSpace c \<longleftrightarrow> c \<le> 0x20"

definition isTabOrNewline :: "code_unit \<Rightarrow> bool" where
  "isTabOrNewline c \<longleftrightarrow> c = 0x09 \<or> c = 0x0A \<or> c = 0x0D"

definition isAsciiAlpha :: "code_unit \<Rightarrow> bool" where
  "isAsciiAlpha c \<longleftrightarrow> (0x41 \<le> c \<and> c \<le> 0x5A) \<or> (0x61 \<le> c \<and> c \<le> 0x7A)"

definition isAsciiDigit :: "code_unit \<Rightarrow> bool" where
  "isAsciiDigit c \<longleftrightarrow> 0x30 \<le> c \<and> c \<le> 0x39"

definition asciiLower :: "code_unit \<Rightarrow> code_unit" where
  "asciiLower c = (if 0x41 \<le> c \<and> c \<le> 0x5A then c + 0x20 else c)"

definition toAsciiLower :: "js_string \<Rightarrow> js_string" where
  "toAsciiLower s = map asciiLower s"

definition isSchemeChar :: "code_unit \<Rightarrow> bool" where
  "isSchemeChar c \<longleftrightarrow> isAsciiAlpha c \<or> isAsciiDigit c \<or> c = 0x2B \<or> c = 0x2D \<or> c = 0x2E"

definition parse_scheme :: "js_string \<Rightarrow> (js_string \<times> js_string) option" where
  "parse_scheme s =
     (if s = [] \<or> \<not> isAsciiAlpha (hd s) then None
      else
        let rest = dropWhile isSchemeChar s in
          if rest \<noteq> [] \<and> hd rest = 0x3A
          then Some (toAsciiLower (takeWhile isSchemeChar s), tl rest)
          else None)"

definition default_port :: "js_string \<Rightarrow> nat option" where
  "default_port scheme =
     (if scheme = js ''http'' \<or> scheme = js ''ws'' then Some 80
      else if scheme = js ''https'' \<or> scheme = js ''wss'' then Some 443
      else if scheme = js ''ftp'' then Some 21
      else None)"

definition digit_value :: "code_unit \<Rightarrow> nat" where
  "digit_value c = unat c - 0x30"

definition parse_decimal :: "js_string \<Rightarrow> nat" where
  "parse_decimal ds = foldl (\<lambda>n c. 10 * n + digit_value c) 0 ds"

fun decimal :: "nat \<Rightarrow> js_string" where
  "decimal n = (if n < 10 then [of_nat (0x30 + n)] else decimal (n div 10) @ [of_nat (0x30 + n mod 10)])"

declare decimal.simps [simp del]

definition isHostChar :: "code_unit \<Rightarrow> bool" where
  "isHostChar c \<longleftrightarrow> isAsciiAlpha c \<or> isAsciiDigit c \<or> c = 0x2D \<or> c = 0x5F"

fun split_on :: "('a \<Rightarrow> bool) \<Rightarrow> 'a list \<Rightarrow> 'a list \<Rightarrow> 'a list list" where
  "split_on P buf [] = [buf]"
| "split_on P buf (c # cs) = (if P c then buf # split_on P [] cs else split_on P (buf @ [c]) cs)"

text \<open>UTF-16 to code points; a lone surrogate reads as U+FFFD.\<close>

definition isHighSurrogate :: "code_unit \<Rightarrow> bool" where
  "isHighSurrogate c \<longleftrightarrow> 0xD800 \<le> c \<and> c \<le> 0xDBFF"

definition isLowSurrogate :: "code_unit \<Rightarrow> bool" where
  "isLowSurrogate c \<longleftrightarrow> 0xDC00 \<le> c \<and> c \<le> 0xDFFF"

definition scalar_value :: "code_unit \<Rightarrow> nat" where
  "scalar_value c = (if isHighSurrogate c \<or> isLowSurrogate c then 0xFFFD else unat c)"

fun code_points :: "js_string \<Rightarrow> nat list" where
  "code_points (c # d # s) =
     (if isHighSurrogate c \<and> isLowSurrogate d
      then (0x10000 + (unat c - 0xD800) * 0x400 + (unat d - 0xDC00)) # code_points s
      else scalar_value c # code_points (d # s))"
| "code_points [c] = [scalar_value c]"
| "code_points [] = []"

definition utf8_bytes :: "nat \<Rightarrow> nat list" where
  "utf8_bytes cp =
     (if cp < 0x80 then [cp]
      else if cp < 0x800 then [0xC0 + cp div 0x40, 0x80 + cp mod 0x40]
      else if cp < 0x10000 then
        [0xE0 + cp div 0x1000, 0x80 + (cp div 0x40) mod 0x40, 0x80 + cp mod 0x40]
      else
        [0xF0 + cp div 0x40000, 0x80 + (cp div 0x1000) mod 0x40,
         0x80 + (cp div 0x40) mod 0x40, 0x80 + cp mod 0x40])"

definition hex_digit :: "nat \<Rightarrow> code_unit" where
  "hex_digit n = (if n < 10 then of_nat (0x30 + n) else of_nat (0x41 + (n - 10)))"

definition percent_byte :: "nat \<Rightarrow> js_string" where
  "percent_byte b = [0x25, hex_digit (b div 16), hex_digit (b mod 16)]"

definition c0_control_set :: "nat \<Rightarrow> bool" where
  "c0_control_set cp \<longleftrightarrow> cp < 0x20 \<or> 0x7E < cp"

definition fragment_set :: "nat \<Rightarrow> bool" where
  "fragment_set cp \<longleftrightarrow>
     c0_control_set cp \<or> cp = 0x20 \<or> cp = 0x22 \<or> cp = 0x3C \<or> cp = 0x3E \<or> cp = 0x60"

definition query_set :: "nat \<Rightarrow> bool" where
  "query_set cp \<longleftrightarrow>
     c0_control_set cp \<or> cp = 0x20 \<or> cp = 0x22 \<or> cp = 0x23 \<or> cp = 0x3C \<or> cp = 0x3E"

definition special_query_set :: "nat \<Rightarrow> bool" where
  "special_query_set cp \<longleftrightarrow> query_set cp \<or> cp = 0x27"

definition path_set :: "nat \<Rightarrow> bool" where
  "path_set cp \<longleftrightarrow>
     query_set cp \<or> cp = 0x3F \<or> cp = 0x60 \<or> cp = 0x7B \<or> cp = 0x7D"

definition percent_encode :: "(nat \<Rightarrow> bool) \<Rightarrow> js_string \<Rightarrow> js_string" where
  "percent_encode enc s =
     concat (map (\<lambda>cp. if enc cp then concat (map percent_byte (utf8_bytes cp)) else [of_nat cp])
               (code_points s))"

definition isSingleDot :: "js_string \<Rightarrow> bool" where
  "isSingleDot seg \<longleftrightarrow> toAsciiLower seg = js ''.'' \<or> toAsciiLower seg = js ''%2e''"

definition isDoubleDot :: "js_string \<Rightarrow> bool" where
  "isDoubleDot seg \<longleftrightarrow>
     toAsciiLower seg = js ''..'' \<or> toAsciiLower seg = js ''.%2e'' \<or>
     toAsciiLower seg = js ''%2e.'' \<or> toAsciiLower seg = js ''%2e%2e''"

text \<open>
  The path state: a segment closed by a slash (or backslash) and the last segment, closed
  by the end of the path.
\<close>

fun path_segments :: "js_string list \<Rightarrow> js_string list \<Rightarrow> js_string list" where
  "path_segments path [] = path"
| "path_segments path [seg] =
     (if isDoubleDot seg then butlast path @ [[]]
      else if isSingleDot seg then path @ [[]]
      else path @ [seg])"
| "path_segments path (seg # segs) =
     (if isDoubleDot seg then path_segments (butlast path) segs
      else if isSingleDot seg then path_segments path segs
      else path_segments (path @ [seg]) segs)"

definition isSlash :: "code_unit \<Rightarrow> bool" where
  "isSlash c \<longleftrightarrow> c = 0x2F \<or> c = 0x5C"

definition serialize_path :: "js_string list \<Rightarrow> js_string" where
  "serialize_path path = concat (map (\<lambda>seg. 0x2F # seg) path)"

definition parse_path :: "js_string \<Rightarrow> js_string" where
  "parse_path p =
     serialize_path
       (path_segments [] (map (percent_encode path_set)
          (split_on isSlash [] (if p \<noteq> [] \<and> isSlash (hd p) then tl p else p))))"

definition with_prefix :: "code_unit \<Rightarrow> js_string \<Rightarrow> js_string" where
  "with_prefix c s = (if s = [] then [] else c # s)"

definition parse_host :: "js_string \<Rightarrow> js_string option" where
  "parse_host h =
     (let labels = split_on (\<lambda>c. c = 0x2E) [] h in
        if list_all (\<lambda>l. l \<noteq> [] \<and> list_all isHostChar l) labels \<and>
           \<not> isAsciiDigit (hd (last labels)) \<and>
           \<not> list_ex (\<lambda>l. startsWith (toAsciiLower l) (js ''xn--'')) labels
        then Some (toAsciiLower h)
        else None)"

definition parse_port :: "js_string \<Rightarrow> js_string \<Rightarrow> nat option option" where
  "parse_port scheme p =
     (if p = [] then Some None
      else if \<not> list_all isAsciiDigit (tl p) then None
      else if tl p = [] then Some None
      else
        let n = parse_decimal (tl p) in
          if 65535 < n then None
          else if default_port scheme = Some n then Some None
          else Some (Some n))"

definition isAuthorityEnd :: "code_unit \<Rightarrow> bool" where
  "isAuthorityEnd c \<longleftrightarrow> c = 0x2F \<or> c = 0x3F \<or> c = 0x23 \<or> c = 0x5C"

definition isPathEnd :: "code_unit \<Rightarrow> bool" where
  "isPathEnd c \<longleftrightarrow> c = 0x3F \<or> c = 0x23"

definition URL_parse :: "js_string \<Rightarrow> URL option" where
  "URL_parse input =
     (let stripped = dropWhileEnd isC0ControlOrSpace (dropWhile isC0ControlOrSpace input);
          cleaned = filter (\<lambda>c. \<not> isTabOrNewline c) stripped
      in
        case parse_scheme cleaned of
          None \<Rightarrow> None
        | Some (scheme, rest) \<Rightarrow>
            if default_port scheme = None then None
            else
              let after_slashes = dropWhile isSlash rest;
                  authority = takeWhile (\<lambda>c. \<not> isAuthorityEnd c) after_slashes;
                  host_port = rev (takeWhile (\<lambda>c. c \<noteq> 0x40) (rev authority));
                  after_authority = dropWhile (\<lambda>c. \<not> isAuthorityEnd c) after_slashes;
                  path_part = takeWhile (\<lambda>c. \<not> isPathEnd c) after_authority;
                  after_path = dropWhile (\<lambda>c. \<not> isPathEnd c) after_authority;
                  query_part =
                    (if after_path \<noteq> [] \<and> hd after_path = 0x3F
                     then takeWhile (\<lambda>c. c \<noteq> 0x23) (tl after_path) else []);
                  fragment_part = dropWhile (\<lambda>c. c \<noteq> 0x23) after_path
              in
                (case parse_host (takeWhile (\<lambda>c. c \<noteq> 0x3A) host_port) of
                   None \<Rightarrow> None
                 | Some host \<Rightarrow>
                     (case parse_port scheme (dropWhile (\<lambda>c. c \<noteq> 0x3A) host_port) of
                        None \<Rightarrow> None
                      | Some port \<Rightarrow>
                          Some \<lparr>origin = scheme @ js ''://'' @ host @
                                    (case port of None \<Rightarrow> [] | Some n \<Rightarrow> 0x3A # decimal n),
                                pathname = parse_path path_part,
                                search = with_prefix 0x3F (percent_encode special_query_set query_part),
                                hash = with_prefix 0x23 (percent_encode fragment_set (tl fragment_part))\<rparr>)))"

section \<open>Built-ins of the platform: base64 and JSON.stringify\<close>

text \<open>
  \<open>a || b\<close>; \<open>Buffer.from(s).toString('base64')\<close>, the base64 form of the UTF-8
  encoding of \<open>s\<close>; and \<open>JSON.stringify\<close> on JSON values.
\<close>

definition js_or :: "js_value \<Rightarrow> js_value \<Rightarrow> js_value" where
  "js_or a b = (if truthy a then a else b)"

definition b64_char :: "nat \<Rightarrow> code_unit" where
  "b64_char n =
     (if n < 26 then of_nat (0x41 + n)
      else if n < 52 then of_nat (0x61 + (n - 26))
      else if n < 62 then of_nat (0x30 + (n - 52))
      else if n = 62 then 0x2B
      else 0x2F)"

fun base64 :: "nat list \<Rightarrow> js_string" where
  "base64 (a # b # c # bytes) =
     [b64_char (a div 4), b64_char ((a mod 4) * 16 + b div 16),
      b64_char ((b mod 16) * 4 + c div 64), b64_char (c mod 64)] @ base64 bytes"
| "base64 [a, b] =
     [b64_char (a div 4), b64_char ((a mod 4) * 16 + b div 16), b64_char ((b mod 16) * 4), 0x3D]"
| "base64 [a] = [b64_char (a div 4), b64_char ((a mod 4) * 16), 0x3D, 0x3D]"
| "base64 [] = []"

definition utf8 :: "js_string \<Rightarrow> nat list" where
  "utf8 s = concat (map utf8_bytes (code_points s))"

definition Buffer_base64 :: "js_string \<Rightarrow> js_string" where
  "Buffer_base64 s = base64 (utf8 s)"

definition hex_lower :: "nat \<Rightarrow> code_unit" where
  "hex_lower n = (if n < 10 then of_nat (0x30 + n) else of_nat (0x61 + (n - 10)))"

definition unicode_escape :: "code_unit \<Rightarrow> js_string" where
  "unicode_escape c =
     [0x5C, 0x75, hex_lower (unat c div 4096), hex_lower ((unat c div 256) mod 16),
      hex_lower ((unat c div 16) mod 16), hex_lower (unat c mod 16)]"

definition quote_unit :: "code_unit \<Rightarrow> js_string" where
  "quote_unit c =
     (if c = 0x08 then [0x5C, 0x62]
      else if c = 0x09 then [0x5C, 0x74]
      else if c = 0x0A then [0x5C, 0x6E]
      else if c = 0x0C then [0x5C, 0x66]
      else if c = 0x0D then [0x5C, 0x72]
      else if c = 0x22 then [0x5C, 0x22]
      else if c = 0x5C then [0x5C, 0x5C]
      else if c < 0x20 \<or> isHighSurrogate c \<or> isLowSurrogate c then unicode_escape c
      else [c])"

fun quote_units :: "js_string \<Rightarrow> js_string" where
  "quote_units (c # d # s) =
     (if isHighSurrogate c \<and> isLowSurrogate d then c # d # quote_units s
      else quote_unit c @ quote_units (d # s))"
| "quote_units [c] = quote_unit c"
| "quote_units [] = []"

definition QuoteJSONString :: "js_string \<Rightarrow> js_string" where
  "QuoteJSONString s = 0x22 # quote_units s @ [0x22]"

fun join_comma :: "js_string list \<Rightarrow> js_string" where
  "join_comma [] = []"
| "join_comma [x] = x"
| "join_comma (x # xs) = x @ 0x2C # join_comma xs"

fun JSON_stringify :: "json \<Rightarrow> js_string" where
  "JSON_stringify JNull = js ''null''"
| "JSON_stringify (JBool b) = (if b then js ''true'' else js ''false'')"
| "JSON_stringify (JNum n) =
     (if n = js ''NaN'' \<or> n = js ''Infinity'' \<or> n = js ''-Infinity'' then js ''null'' else n)"
| "JSON_stringify (JStr s) = QuoteJSONString s"
| "JSON_stringify (JArr xs) = 0x5B # join_comma (map JSON_stringify xs) @ [0x5D]"
| "JSON_stringify (JObj kvs) =
     0x7B # join_comma (map (\<lambda>(k, v). QuoteJSONString k @ 0x3A # JSON_stringify v) kvs) @ [0x7D]"

section \<open>lib/config\<close>

text \<open>
  The settings object of \<open>loadConfig\<close>, with the fields the handlers below read. A
  setting that is absent from the environment is the empty string.
\<close>

record entra_config =
  tenantId :: js_string
  clientId :: js_string
  clientSecret :: js_string
  redirectPath :: js_string
  allowedGroupId :: js_string

record n8n_config =
  webhookUrl :: js_string
  webhookUrlTest :: js_string
  username :: js_string
  password :: js_string

record legacy_config =
  enablePasswordLogin :: bool
  jwtSecret :: js_string

record config =
  baseUrl :: js_string
  entra :: entra_config
  n8n :: n8n_config
  legacy :: legacy_config

section \<open>lib/auth: sessions and the OIDC client\<close>

record oidc_transaction =
  state :: js_string
  nonce :: js_string
  codeVerifier :: js_string
  returnTo :: js_string
  createdAt :: int

record user =
  sub :: js_value
  email :: js_value
  name :: js_value
  authorized :: bool
  idToken :: js_value

text \<open>
  The session object of express-session: its identifier and the two properties the
  application stores on it.
\<close>

record session =
  sid :: js_string
  oidcTransaction :: "oidc_transaction option"
  user :: "user option"

text \<open>
  The client of the openid-client library is a parameter: \<open>authorizationUrl\<close> builds the
  URL of the provider's authorization endpoint, \<open>callbackParams\<close> and \<open>callback\<close> answer
  \<open>None\<close> where the library throws or rejects, and \<open>tokenSet_claims\<close> is \<open>None\<close>
  where \<open>tokenSet.claims()\<close> throws.
\<close>

record token_set =
  id_token :: js_value
  tokenSet_claims :: "json option"

record callback_checks =
  checks_code_verifier :: js_string
  checks_state :: js_string
  checks_nonce :: js_string

record authorization_parameters =
  scope :: js_string
  param_state :: js_string
  param_nonce :: js_string
  code_challenge :: js_string
  code_challenge_method :: js_string

record oidc_client =
  authorizationUrl :: "authorization_parameters \<Rightarrow> js_string"
  callbackParams :: "json \<Rightarrow> json option"
  callback :: "js_string \<Rightarrow> json \<Rightarrow> callback_checks \<Rightarrow> token_set option"

datatype auth_error =
    OidcNotConfigured
  | DiscoveryFailed
  | ProviderError js_value
  | NoTransaction
  | TransactionExpired
  | StateMismatch
  | CallbackRejected
  | NonceMismatch
  | GroupOverage
  | GroupClaimMissing

text \<open>
  \<open>getOidcClient\<close>: the module variable \<open>oidcClient\<close> caches the client; the function
  returns its result and the new value of the variable. \<open>discover\<close> stands for
  \<open>Issuer.discover\<close> followed by the construction of the client.
\<close>

definition getOidcClient ::
  "config \<Rightarrow> (js_string \<Rightarrow> oidc_client option) \<Rightarrow> oidc_client option \<Rightarrow>
     (auth_error + oidc_client) \<times> oidc_client option" where
  "getOidcClient cfg discover oidcClient =
     (case oidcClient of
        Some client \<Rightarrow> (Inr client, oidcClient)
      | None \<Rightarrow>
          if tenantId (entra cfg) = [] \<or> clientId (entra cfg) = [] \<or> clientSecret (entra cfg) = []
          then (Inl OidcNotConfigured, None)
          else
            (case discover (js ''https://login.microsoftonline.com/'' @ tenantId (entra cfg) @ js ''/v2.0'') of
               None \<Rightarrow> (Inl DiscoveryFailed, None)
             | Some client \<Rightarrow> (Inr client, Some client)))"



definition TRANSACTION_TTL :: int where
  "TRANSACTION_TTL = 5 * 60 * 1000"

record callback_result =
  result_tokenSet :: token_set
  result_claims :: json
  result_returnTo :: js_string

text \<open>
  \<open>handleCallback(session, query)\<close>: the result or the thrown error, the session object
  as the call leaves it, and the module variable. \<open>now\<close> is the value of \<open>Date.now()\<close>.
\<close>

definition handleCallback ::
  "config \<Rightarrow> (js_string \<Rightarrow> oidc_client option) \<Rightarrow> int \<Rightarrow> oidc_client option \<Rightarrow>
     session \<Rightarrow> json \<Rightarrow> (auth_error + callback_result) \<times> session \<times> oidc_client option" where
  "handleCallback cfg discover now oidcClient sess query =
     (case getOidcClient cfg discover oidcClient of
        (Inl err, cached) \<Rightarrow> (Inl err, sess, cached)
      | (Inr client, cached) \<Rightarrow>
          (case oidcTransaction sess of
             None \<Rightarrow> (Inl NoTransaction, sess, cached)
           | Some tx \<Rightarrow>
               if now - createdAt tx > TRANSACTION_TTL
               then (Inl TransactionExpired, sess\<lparr>oidcTransaction := None\<rparr>, cached)
               else if get_prop (Some query) (js ''state'') \<noteq> Some (JStr (state tx))
               then (Inl StateMismatch, sess\<lparr>oidcTransaction := None\<rparr>, cached)
               else
                 (case callbackParams client (JObj [(js ''query'', query)]) of
                    None \<Rightarrow> (Inl CallbackRejected, sess, cached)
                  | Some params \<Rightarrow>
                      (case callback client (baseUrl cfg @ redirectPath (entra cfg)) params
                              \<lparr>checks_code_verifier = codeVerifier tx,
                               checks_state = state tx,
                               checks_nonce = nonce tx\<rparr> of
                         None \<Rightarrow> (Inl CallbackRejected, sess, cached)
                       | Some tokenSet \<Rightarrow>
                           (case tokenSet_claims tokenSet of
                              None \<Rightarrow> (Inl CallbackRejected, sess, cached)
                            | Some claims \<Rightarrow>
                                if get_prop (Some claims) (js ''nonce'') \<noteq> Some (JStr (nonce tx))
                                then (Inl NonceMismatch, sess, cached)
                                else
                                  (Inr \<lparr>result_tokenSet = tokenSet,
                                        result_claims = claims,
                                        result_returnTo = returnTo tx\<rparr>,
                                   sess\<lparr>oidcTransaction := None\<rparr>, cached))))))"

definition checkGroupMembership :: "config \<Rightarrow> json \<Rightarrow> token_set \<Rightarrow> auth_error + bool" where
  "checkGroupMembership cfg claims tokenSet =
     (if allowedGroupId (entra cfg) = [] then Inr True
      else
        (case get_prop (Some claims) (js ''groups'') of
           Some (JArr groups) \<Rightarrow> Inr (JStr (allowedGroupId (entra cfg)) \<in> set groups)
         | _ \<Rightarrow>
             if truthy (get_prop (Some claims) (js ''_claim_names'')) \<and>
                truthy (get_prop (get_prop (Some claims) (js ''_claim_names'')) (js ''groups''))
             then Inl GroupOverage
             else Inl GroupClaimMissing))"

section \<open>lib/auth: the callback route\<close>





section \<open>server: the webhook proxy\<close>

text \<open>
  The request as the route sees it: the session of express-session, the \<open>session\<close>
  cookie of cookie-parser, the method, the \<open>content-type\<close> header and the body parsed by
  \<open>express.json\<close>.
\<close>

record proxy_request =
  req_session :: "session option"
  cookie_session :: js_value
  req_method :: js_string
  req_content_type :: "js_string option"
  req_body :: js_value

datatype response_body =
    JsonBody json
  | SendBody js_string

text \<open>
  A response: the status, the calls of \<open>res.setHeader\<close> in order, and the body given to
  \<open>res.json\<close> or \<open>res.send\<close>.
\<close>

record response =
  status :: nat
  headers :: "(js_string \<times> js_string) list"
  body :: response_body

datatype middleware_result =
    Next
  | Respond response

text \<open>
  \<open>jwt.verify(token, secret)\<close> of the jsonwebtoken library is a parameter; it is
  \<open>False\<close> where the library throws.
\<close>

definition session_authorized :: "proxy_request \<Rightarrow> bool" where
  "session_authorized req =
     (case req_session req of
        None \<Rightarrow> False
      | Some sess \<Rightarrow> (case user sess of None \<Rightarrow> False | Some u \<Rightarrow> authorized u))"

definition legacy_token_valid ::
  "(js_value \<Rightarrow> js_string \<Rightarrow> bool) \<Rightarrow> config \<Rightarrow> proxy_request \<Rightarrow> bool" where
  "legacy_token_valid jwt_verify cfg req \<longleftrightarrow>
     enablePasswordLogin (legacy cfg) \<and> truthy (cookie_session req) \<and>
     jwt_verify (cookie_session req) (jwtSecret (legacy cfg))"

definition authenticateProxy ::
  "(js_value \<Rightarrow> js_string \<Rightarrow> bool) \<Rightarrow> config \<Rightarrow> proxy_request \<Rightarrow> middleware_result" where
  "authenticateProxy jwt_verify cfg req =
     (if session_authorized req then Next
      else if legacy_token_valid jwt_verify cfg req then Next
      else
        Respond \<lparr>status = 401, headers = [],
                 body = JsonBody (JObj [(js ''error'', JStr (js ''Not authenticated''))])\<rparr>)"

text \<open>
  The call of \<open>fetch\<close>: the target, the method, the two request headers and the body
  (\<open>None\<close> for \<open>undefined\<close>). \<open>fetch\<close> of node-fetch is a parameter that answers the status,
  the headers in the order \<open>forEach\<close> visits them and the text of the body, or \<open>None\<close>
  where \<open>fetch\<close> or \<open>upstream.text()\<close> rejects.
\<close>

record upstream_request =
  fetch_url :: js_string
  fetch_method :: js_string
  fetch_headers :: "(js_string \<times> js_string) list"
  fetch_body :: "js_string option"

record upstream_response =
  upstream_status :: nat
  upstream_headers :: "(js_string \<times> js_string) list"
  upstream_text :: js_string

definition build_upstream_request :: "config \<Rightarrow> js_string \<Rightarrow> proxy_request \<Rightarrow> upstream_request" where
  "build_upstream_request cfg target req =
     \<lparr>fetch_url = target,
      fetch_method = req_method req,
      fetch_headers =
        [(js ''Content-Type'',
          (case req_content_type req of
             None \<Rightarrow> js ''application/json''
           | Some ct \<Rightarrow> if ct = [] then js ''application/json'' else ct)),
         (js ''Authorization'',
          js ''Basic '' @ Buffer_base64 (username (n8n cfg) @ js '':'' @ password (n8n cfg)))],
      fetch_body =
        (if req_method req = js ''GET'' \<or> req_method req = js ''HEAD'' then None
         else Some (JSON_stringify
                (case js_or (req_body req) (Some (JObj [])) of None \<Rightarrow> JObj [] | Some b \<Rightarrow> b)))\<rparr>"

definition isHopHeader :: "js_string \<Rightarrow> bool" where
  "isHopHeader k \<longleftrightarrow>
     toAsciiLower k = js ''transfer-encoding'' \<or> toAsciiLower k = js ''content-encoding'' \<or>
     toAsciiLower k = js ''connection''"

text \<open>
  The handler behind \<open>authenticateProxy\<close>, for a target URL: the response, and the call of
  \<open>fetch\<close> it made, if any.
\<close>

definition forward ::
  "(upstream_request \<Rightarrow> upstream_response option) \<Rightarrow> config \<Rightarrow> js_string \<Rightarrow> proxy_request \<Rightarrow>
     response \<times> upstream_request option" where
  "forward fetch cfg target req =
     (if target = []
      then (\<lparr>status = 500, headers = [],
              body = JsonBody (JObj [(js ''error'', JStr (js ''N8N webhook URL not configured''))])\<rparr>,
            None)
      else
        (case fetch (build_upstream_request cfg target req) of
           None \<Rightarrow>
             (\<lparr>status = 500, headers = [],
               body = JsonBody (JObj [(js ''error'', JStr (js ''Proxy error''))])\<rparr>,
              Some (build_upstream_request cfg target req))
         | Some upstream \<Rightarrow>
             (\<lparr>status = upstream_status upstream,
               headers = filter (\<lambda>(k, v). \<not> isHopHeader k) (upstream_headers upstream),
               body = SendBody (upstream_text upstream)\<rparr>,
              Some (build_upstream_request cfg target req))))"

definition proxy_route ::
  "(js_value \<Rightarrow> js_string \<Rightarrow> bool) \<Rightarrow> (upstream_request \<Rightarrow> upstream_response option) \<Rightarrow>
     config \<Rightarrow> js_string \<Rightarrow> proxy_request \<Rightarrow> response \<times> upstream_request option" where
  "proxy_route jwt_verify fetch cfg target req =
     (case authenticateProxy jwt_verify cfg req of
        Respond res \<Rightarrow> (res, None)
      | Next \<Rightarrow> forward fetch cfg target req)"

text \<open>
  The handlers of \<open>app.all('/proxy/webhook', ...)\<close> and
  \<open>app.all('/proxy/webhook-test', ...)\<close>, on a request that has reached the route.
\<close>

definition proxy_webhook ::
  "(js_value \<Rightarrow> js_string \<Rightarrow> bool) \<Rightarrow> (upstream_request \<Rightarrow> upstream_response option) \<Rightarrow>
     config \<Rightarrow> proxy_request \<Rightarrow> response \<times> upstream_request option" where
  "proxy_webhook jwt_verify fetch cfg req =
     proxy_route jwt_verify fetch cfg (webhookUrl (n8n cfg)) req"

definition proxy_webhook_test ::
  "(js_value \<Rightarrow> js_string \<Rightarrow> bool) \<Rightarrow> (upstream_request \<Rightarrow> upstream_response option) \<Rightarrow>
     config \<Rightarrow> proxy_request \<Rightarrow> response \<times> upstream_request option" where
  "proxy_webhook_test jwt_verify fetch cfg req =
     proxy_route jwt_verify fetch cfg
       (if webhookUrlTest (n8n cfg) \<noteq> [] then webhookUrlTest (n8n cfg) else webhookUrl (n8n cfg)) req"

text \<open>
  The routes as the server mounts them. The middleware mounted before the routes runs
  first: \<open>express.json\<close> reads and parses the body, cookie-parser the cookies, and the
  session middleware loads the session. Where one of them ends with an error (for
  \<open>express.json\<close>: a body that is not JSON, or one over the limit) the request skips the
  routes and reaches the error handler at the end of the chain, which answers status 500.
  This middleware is a parameter: it answers \<open>None\<close> where it calls \<open>next(err)\<close>, and
  else the request as the route sees it.
\<close>

record incoming_request =
  in_method :: js_string
  in_headers :: "(js_string \<times> js_string) list"
  in_raw_body :: js_string

definition error_handler :: response where
  "error_handler =
     \<lparr>status = 500, headers = [],
      body = JsonBody (JObj [(js ''error'', JStr (js ''Internal server error''))])\<rparr>"

definition app_proxy_webhook ::
  "(incoming_request \<Rightarrow> proxy_request option) \<Rightarrow> (js_value \<Rightarrow> js_string \<Rightarrow> bool) \<Rightarrow>
     (upstream_request \<Rightarrow> upstream_response option) \<Rightarrow> config \<Rightarrow> incoming_request \<Rightarrow>
     response \<times> upstream_request option" where
  "app_proxy_webhook middleware jwt_verify fetch cfg incoming =
     (case middleware incoming of
        None \<Rightarrow> (error_handler, None)
      | Some req \<Rightarrow> proxy_webhook jwt_verify fetch cfg req)"

definition app_proxy_webhook_test ::
  "(incoming_request \<Rightarrow> proxy_request option) \<Rightarrow> (js_value \<Rightarrow> js_string \<Rightarrow> bool) \<Rightarrow>
     (upstream_request \<Rightarrow> upstream_response option) \<Rightarrow> config \<Rightarrow> incoming_request \<Rightarrow>
     response \<times> upstream_request option" where
  "app_proxy_webhook_test middleware jwt_verify fetch cfg incoming =
     (case middleware incoming of
        None \<Rightarrow> (error_handler, None)
      | Some req \<Rightarrow> proxy_webhook_test jwt_verify fetch cfg req)"

section \<open>Example values\<close>

text \<open>
  The configuration, session, client, requests and upstream answer at which the theorems
  below are evaluated. \<open>example_client answer\<close> is a client whose code exchange gives
  \<open>answer\<close>.
\<close>

definition example_config :: config where
  "example_config =
     \<lparr>baseUrl = js ''http://localhost:3000'',
      entra = \<lparr>tenantId = js ''tenant-1'', clientId = js ''client-1'', clientSecret = js ''secret-1'',
               redirectPath = js ''/auth/callback'', allowedGroupId = js ''group-1''\<rparr>,
      n8n = \<lparr>webhookUrl = js ''http://n8n.internal/webhook/chat'', webhookUrlTest = [],
             username = js ''user'', password = js ''pass''\<rparr>,
      legacy = \<lparr>enablePasswordLogin = False, jwtSecret = js ''change_this_in_prod''\<rparr>\<rparr>"

definition example_transaction :: oidc_transaction where
  "example_transaction =
     \<lparr>state = js ''state-1'', nonce = js ''nonce-1'', codeVerifier = js ''verifier-1'',
      returnTo = js ''/chat.html'', createdAt = 1000\<rparr>"

definition example_session :: session where
  "example_session = \<lparr>sid = js ''sid-old'', oidcTransaction = Some example_transaction, user = None\<rparr>"

definition example_query :: "js_string \<Rightarrow> json" where
  "example_query st = JObj [(js ''code'', JStr (js ''code-1'')), (js ''state'', JStr st)]"

definition example_client :: "token_set option \<Rightarrow> oidc_client" where
  "example_client answer =
     \<lparr>authorizationUrl = (\<lambda>params. js ''https://login.example/authorize?state='' @ param_state params),
      callbackParams = (\<lambda>input. get_prop (Some input) (js ''query'')),
      callback = (\<lambda>redirectUri params checks. answer)\<rparr>"

definition example_token_set :: "js_string \<Rightarrow> json list \<Rightarrow> token_set" where
  "example_token_set n groups =
     \<lparr>id_token = Some (JStr (js ''id-token-1'')),
      tokenSet_claims =
        Some (JObj [(js ''sub'', JStr (js ''subject-1'')), (js ''name'', JStr (js ''Ada'')),
                    (js ''preferred_username'', JStr (js ''ada@example.com'')),
                    (js ''nonce'', JStr n), (js ''groups'', JArr groups)])\<rparr>"

definition example_claims_member :: json where
  "example_claims_member = JObj [(js ''groups'', JArr [JStr (js ''group-0''), JStr (js ''group-1'')])]"

definition example_claims_no_groups :: json where
  "example_claims_no_groups = JObj [(js ''sub'', JStr (js ''subject-1''))]"

definition example_user :: "bool \<Rightarrow> user" where
  "example_user auth =
     \<lparr>sub = Some (JStr (js ''subject-1'')), email = Some (JStr (js ''ada@example.com'')),
      name = Some (JStr (js ''Ada'')), authorized = auth, idToken = Some (JStr (js ''id-token-1''))\<rparr>"

definition example_request :: "user option \<Rightarrow> js_value \<Rightarrow> proxy_request" where
  "example_request u cookie =
     \<lparr>req_session = Some \<lparr>sid = js ''sid-new'', oidcTransaction = None, user = u\<rparr>,
      cookie_session = cookie,
      req_method = js ''POST'',
      req_content_type = Some (js ''application/json''),
      req_body = Some (JObj [(js ''chatInput'', JStr (js ''hello''))])\<rparr>"

definition example_payload :: json where
  "example_payload = JObj [(js ''chatInput'', JStr (js ''hello''))]"

definition example_incoming :: "js_string \<Rightarrow> incoming_request" where
  "example_incoming raw =
     \<lparr>in_method = js ''POST'',
      in_headers = [(js ''content-type'', js ''application/json'')],
      in_raw_body = raw\<rparr>"

text \<open>
  A stand-in for the middleware before the routes, for a client whose session holds the
  user \<open>u\<close> and whose \<open>session\<close> cookie is \<open>cookie\<close>. It knows one payload: it hands on
  the request when the body is the JSON text of \<open>example_payload\<close>, and ends with an
  error on every other body, among them the text \<open>{\<close>.
\<close>

definition example_middleware ::
  "user option \<Rightarrow> js_value \<Rightarrow> incoming_request \<Rightarrow> proxy_request option" where
  "example_middleware u cookie incoming =
     (if in_raw_body incoming = JSON_stringify example_payload
      then Some (example_request u cookie)
      else None)"

definition example_upstream :: upstream_response where
  "example_upstream =
     \<lparr>upstream_status = 200,
      upstream_headers =
        [(js ''content-type'', js ''application/json''),
         (js ''Transfer-Encoding'', js ''chunked''),
         (js ''x-request-id'', js ''42'')],
      upstream_text = js ''ok''\<rparr>"

definition example_fetch :: "upstream_request \<Rightarrow> upstream_response option" where
  "example_fetch r = Some example_upstream"

definition example_legacy_config :: config where
  "example_legacy_config =
     example_config\<lparr>legacy := \<lparr>enablePasswordLogin = True, jwtSecret = js ''legacy-secret''\<rparr>\<rparr>"

text \<open>A stand-in for the signature check: the one valid token names the secret.\<close>

definition example_jwt_verify :: "js_value \<Rightarrow> js_string \<Rightarrow> bool" where
  "example_jwt_verify token secret \<longleftrightarrow> token = Some (JStr (js ''signed:'' @ secret))"


section \<open>Lemmas on strings\<close>

lemma js_simps: "js [] = []" "js (c # s) = of_char c # js s"
  by (simp_all add: js_def)

lemma dropWhileEnd_Cons: "\<not> P x \<Longrightarrow> dropWhileEnd P (x # xs) = x # dropWhileEnd P xs"
  by (simp add: dropWhileEnd_def dropWhile_append)

lemma dropWhileEnd_Cons2:
  "\<not> P x \<Longrightarrow> \<not> P y \<Longrightarrow> dropWhileEnd P (x # y # xs) = x # y # dropWhileEnd P xs"
  by (simp add: dropWhileEnd_Cons)

lemma not_ws_slash: "\<not> isWhiteSpace 0x2F"
  by (simp add: isWhiteSpace_def)

lemma not_ws_dot: "\<not> isWhiteSpace 0x2E"
  by (simp add: isWhiteSpace_def)

lemma startsWith_Cons: "startsWith s (c # p) \<longleftrightarrow> (\<exists>t. s = c # t \<and> startsWith t p)"
  by (cases s) (auto simp: startsWith_def)

lemma startsWith_Nil: "startsWith s []"
  by (simp add: startsWith_def)

lemma trim_slash_slash:
  assumes "startsWith s (js ''//'')"
  shows "\<exists>t. trim s = 0x2F # 0x2F # t"
proof -
  from assms obtain t where s: "s = 0x2F # 0x2F # t"
    by (auto simp: js_simps startsWith_Cons)
  show ?thesis
    by (simp add: s trim_def not_ws_slash dropWhileEnd_Cons2)
qed

lemma includes_js_iff: "includes_js s p \<longleftrightarrow> (\<exists>a b. s = a @ p @ b)"
proof (induction s)
  case Nil
  then show ?case by auto
next
  case (Cons c s)
  have "startsWith (c # s) p \<longleftrightarrow> (\<exists>b. c # s = p @ b)"
    unfolding startsWith_def
    by (metis append_eq_conv_conj append_take_drop_id)
  moreover have "(\<exists>a b. c # s = a @ p @ b) \<longleftrightarrow> (\<exists>b. c # s = p @ b) \<or> (\<exists>a b. s = a @ p @ b)"
  proof
    assume "\<exists>a b. c # s = a @ p @ b"
    then obtain a b where ab: "c # s = a @ p @ b" by blast
    show "(\<exists>b. c # s = p @ b) \<or> (\<exists>a b. s = a @ p @ b)"
    proof (cases a)
      case Nil
      with ab show ?thesis by auto
    next
      case (Cons x a')
      with ab have "s = a' @ p @ b" by simp
      then show ?thesis by blast
    qed
  next
    assume "(\<exists>b. c # s = p @ b) \<or> (\<exists>a b. s = a @ p @ b)"
    then show "\<exists>a b. c # s = a @ p @ b"
    proof
      assume "\<exists>b. c # s = p @ b"
      then show ?thesis by (metis append_Nil)
    next
      assume "\<exists>a b. s = a @ p @ b"
      then obtain a b where "s = a @ p @ b" by blast
      then have "c # s = (c # a) @ p @ b" by simp
      then show ?thesis by blast
    qed
  qed
  ultimately show ?case using Cons.IH by simp
qed

lemma includes_dropWhile:
  assumes "includes_js s p" "p \<noteq> []" "\<not> P (hd p)"
  shows "includes_js (dropWhile P s) p"
proof -
  from assms(1) obtain a b where s: "s = a @ p @ b"
    by (auto simp: includes_js_iff)
  from assms(2,3) obtain y q where p: "p = y # q" "\<not> P y"
    by (cases p) auto
  have "dropWhile P (a @ y # (q @ b)) = dropWhile P a @ y # (q @ b)"
    using p(2) by (rule dropWhile_append3)
  then have "dropWhile P s = dropWhile P a @ p @ b"
    by (simp add: s p(1))
  then show ?thesis
    unfolding includes_js_iff by blast
qed

lemma includes_rev: "includes_js (rev s) (rev p) \<longleftrightarrow> includes_js s p"
proof -
  have "(\<exists>a b. rev s = a @ rev p @ b) \<longleftrightarrow> (\<exists>a b. s = a @ p @ b)"
  proof
    assume "\<exists>a b. rev s = a @ rev p @ b"
    then obtain a b where "rev s = a @ rev p @ b" by blast
    then have "s = rev b @ p @ rev a"
      by (metis append_assoc rev_append rev_rev_ident)
    then show "\<exists>a b. s = a @ p @ b" by blast
  next
    assume "\<exists>a b. s = a @ p @ b"
    then obtain a b where "s = a @ p @ b" by blast
    then have "rev s = rev b @ rev p @ rev a" by simp
    then show "\<exists>a b. rev s = a @ rev p @ b" by blast
  qed
  then show ?thesis by (simp add: includes_js_iff)
qed

lemma includes_dropWhileEnd:
  assumes "includes_js s p" "p \<noteq> []" "\<not> P (last p)"
  shows "includes_js (dropWhileEnd P s) p"
proof -
  have "includes_js (dropWhile P (rev s)) (rev p)"
    using assms by (intro includes_dropWhile) (simp_all add: includes_rev hd_rev)
  then show ?thesis
    by (metis dropWhileEnd_def includes_rev rev_rev_ident)
qed

lemma includes_trim_dotdot:
  "includes_js s (js ''..'') \<Longrightarrow> includes_js (trim s) (js ''..'')"
  unfolding trim_def
  by (intro includes_dropWhileEnd includes_dropWhile) (simp_all add: js_simps not_ws_dot)

lemma replace_slashes_hd: "\<exists>t. replace_slashes (c # s) = c # t"
  by (induction s arbitrary: c) auto

lemma includes_replace_slashes_dotdot:
  "includes_js s (js ''..'') \<Longrightarrow> includes_js (replace_slashes s) (js ''..'')"
proof (induction s rule: replace_slashes.induct)
  case (1 c d s)
  obtain t where t: "replace_slashes (d # s) = d # t"
    using replace_slashes_hd by blast
  show ?case
  proof (cases "startsWith (c # d # s) (js ''..'')")
    case True
    then have "c = 0x2E" "d = 0x2E"
      by (auto simp: js_simps startsWith_Cons)
    then show ?thesis
      using t by (simp add: js_simps startsWith_Cons startsWith_Nil)
  next
    case False
    with "1.prems" have "includes_js (d # s) (js ''..'')" by simp
    then have "includes_js (replace_slashes (d # s)) (js ''..'')"
      using "1.IH" by (cases "c = 0x2F \<and> d = 0x2F") auto
    then show ?thesis by auto
  qed
qed simp_all

lemma trim_Nil: "trim [] = []"
  by (simp add: trim_def dropWhileEnd_def)

section \<open>Lemmas on the URL parser\<close>

lemma parse_scheme_slash: "parse_scheme (0x2F # t) = None"
  by (simp add: parse_scheme_def isAsciiAlpha_def)

lemma parse_scheme_Nil: "parse_scheme [] = None"
  by (simp add: parse_scheme_def)

lemma URL_parse_no_scheme:
  assumes "parse_scheme (filter (\<lambda>c. \<not> isTabOrNewline c)
             (dropWhileEnd isC0ControlOrSpace (dropWhile isC0ControlOrSpace s))) = None"
  shows "URL_parse s = None"
  unfolding URL_parse_def using assms by simp

lemma URL_parse_Nil: "URL_parse [] = None"
  by (rule URL_parse_no_scheme) (simp add: dropWhileEnd_def parse_scheme_Nil)

lemma URL_parse_slash: "URL_parse (0x2F # t) = None"
proof (rule URL_parse_no_scheme)
  have "\<not> isC0ControlOrSpace 0x2F" "\<not> isTabOrNewline 0x2F"
    by (simp_all add: isC0ControlOrSpace_def isTabOrNewline_def)
  then show "parse_scheme (filter (\<lambda>c. \<not> isTabOrNewline c)
      (dropWhileEnd isC0ControlOrSpace (dropWhile isC0ControlOrSpace (0x2F # t)))) = None"
    by (simp add: dropWhileEnd_Cons parse_scheme_slash)
qed

lemma URL_parse_requires_scheme: "requires_scheme URL_parse"
  unfolding requires_scheme_def
proof (intro allI impI)
  fix s assume "URL_parse s \<noteq> None"
  then show "s \<noteq> [] \<and> hd s \<noteq> 0x2F"
    using URL_parse_Nil URL_parse_slash by (cases s) auto
qed

lemma decimal_3000: "decimal 3000 = js ''3000''"
  by (simp add: decimal.simps[of 3000] decimal.simps[of 300] decimal.simps[of 30] decimal.simps[of 3] js_simps)

lemma port_3000: "parse_port (js ''http'') (js '':3000'') = Some (Some 3000)"
  by (simp add: parse_port_def js_simps isAsciiDigit_def parse_decimal_def digit_value_def default_port_def)

lemma host_localhost: "parse_host (js ''localhost'') = Some (js ''localhost'')"
  by (simp add: parse_host_def js_simps isHostChar_def isAsciiAlpha_def isAsciiDigit_def toAsciiLower_def asciiLower_def startsWith_def)

lemmas url_eval =
  URL_parse_def dropWhileEnd_def isC0ControlOrSpace_def isTabOrNewline_def isAsciiAlpha_def
  isAsciiDigit_def asciiLower_def toAsciiLower_def isSchemeChar_def parse_scheme_def
  default_port_def isSlash_def isAuthorityEnd_def isPathEnd_def with_prefix_def
  percent_encode_def isHighSurrogate_def isLowSurrogate_def scalar_value_def utf8_bytes_def
  hex_digit_def percent_byte_def c0_control_set_def fragment_set_def query_set_def
  special_query_set_def path_set_def isSingleDot_def isDoubleDot_def serialize_path_def
  parse_path_def Let_def js_simps

lemma URL_parse_base: "URL_parse (js ''http://localhost:3000'') =
    Some \<lparr>origin = js ''http://localhost:3000'', pathname = js ''/'', search = [], hash = []\<rparr>"
  using host_localhost port_3000 decimal_3000 by (simp add: url_eval)

lemma URL_parse_chat_query: "URL_parse (js ''http://localhost:3000/chat.html?file=../x'') =
    Some \<lparr>origin = js ''http://localhost:3000'', pathname = js ''/chat.html'',
          search = js ''?file=../x'', hash = []\<rparr>"
  using host_localhost port_3000 decimal_3000 by (simp add: url_eval)

lemma URL_parse_chat_nbsp: "URL_parse (js ''http://localhost:3000/chat.html'' @ [0xA0]) =
    Some \<lparr>origin = js ''http://localhost:3000'', pathname = js ''/chat.html%C2%A0'',
          search = [], hash = []\<rparr>"
  using host_localhost port_3000 decimal_3000 by (simp add: url_eval)

lemma trim_chat_query: "trim (js ''http://localhost:3000/chat.html?file=../x'') = js ''http://localhost:3000/chat.html?file=../x''"
  by (simp add: trim_def dropWhileEnd_def isWhiteSpace_def js_simps)

lemma trim_chat_nbsp: "trim (js ''http://localhost:3000/chat.html'' @ [0xA0]) = js ''http://localhost:3000/chat.html''"
  by (simp add: trim_def dropWhileEnd_def isWhiteSpace_def js_simps)

lemma URL_parse_chat: "URL_parse (js ''http://localhost:3000/chat.html'') =
    Some \<lparr>origin = js ''http://localhost:3000'', pathname = js ''/chat.html'',
          search = [], hash = []\<rparr>"
  using host_localhost port_3000 decimal_3000 by (simp add: url_eval)

section \<open>Properties of validateReturnTo\<close>

text \<open>
  C1 (as amended). Let the platform's parser fail on inputs without a scheme. A
  \<open>returnTo\<close> string that starts with \<open>//\<close> yields \<open>/\<close>. A \<open>returnTo\<close> string that
  contains \<open>..\<close> and whose trimmed value starts with a slash yields \<open>/\<close>. Any \<open>returnTo\<close>
  string that contains \<open>..\<close> is never returned as a relative path: the result is decided
  by the absolute-URL branch alone, which gives \<open>/\<close> unless the trimmed value parses as
  a URL whose origin is the base URL's, and then gives that URL's
  \<open>pathname + search + hash\<close>.
\<close>

theorem validateReturnTo_rejects:
  assumes "requires_scheme new_URL"
  shows "(startsWith s (js ''//'') \<longrightarrow>
            validateReturnTo new_URL (Some (JStr s)) base_url = js ''/'') \<and>
         (includes_js s (js ''..'') \<and> startsWith (trim s) (js ''/'') \<longrightarrow>
            validateReturnTo new_URL (Some (JStr s)) base_url = js ''/'') \<and>
         (includes_js s (js ''..'') \<longrightarrow>
            validateReturnTo new_URL (Some (JStr s)) base_url =
              (case new_URL (trim s) of
                 None \<Rightarrow> js ''/''
               | Some url \<Rightarrow>
                   (case new_URL base_url of
                      None \<Rightarrow> js ''/''
                    | Some base \<Rightarrow>
                        if origin url = origin base
                        then pathname url @ search url @ hash url
                        else js ''/'')))"
proof -
  have rel: "new_URL t = None" if "startsWith t (js ''/'')" for t
  proof -
    from that have "t \<noteq> [] \<and> hd t = 0x2F"
      by (auto simp: js_simps startsWith_Cons)
    with assms show ?thesis
      unfolding requires_scheme_def by blast
  qed
  have dd: "validateReturnTo new_URL (Some (JStr s)) base_url =
              (case new_URL (trim s) of
                 None \<Rightarrow> js ''/''
               | Some url \<Rightarrow>
                   (case new_URL base_url of
                      None \<Rightarrow> js ''/''
                    | Some base \<Rightarrow>
                        if origin url = origin base
                        then pathname url @ search url @ hash url
                        else js ''/''))"
    if "includes_js s (js ''..'')"
  proof -
    from that have "s \<noteq> []" by (auto simp: js_simps)
    moreover from that have "includes_js (replace_slashes (trim s)) (js ''..'')"
      by (intro includes_replace_slashes_dotdot includes_trim_dotdot)
    ultimately show ?thesis
      by (simp add: validateReturnTo_def Let_def)
  qed
  have pr: "validateReturnTo new_URL (Some (JStr s)) base_url = js ''/''"
    if "startsWith s (js ''//'')"
  proof -
    from that obtain t where t: "trim s = 0x2F # 0x2F # t"
      using trim_slash_slash by blast
    then have "startsWith (trim s) (js ''//'')" "startsWith (trim s) (js ''/'')"
      by (simp_all add: js_simps startsWith_Cons startsWith_Nil)
    then show ?thesis
      by (simp add: validateReturnTo_def Let_def rel)
  qed
  show ?thesis
    using pr dd rel by simp
qed

text \<open>
  Witness for C1: with the parser of the URL Standard, \<open>//evil.example/..\<close> meets every
  hypothesis and is answered by \<open>/\<close>.
\<close>

theorem validateReturnTo_rejects_witness:
  "requires_scheme URL_parse \<and>
   startsWith (js ''//evil.example/..'') (js ''//'') \<and>
   includes_js (js ''//evil.example/..'') (js ''..'') \<and>
   startsWith (trim (js ''//evil.example/..'')) (js ''/'') \<and>
   validateReturnTo URL_parse (Some (JStr (js ''//evil.example/..''))) (js ''http://localhost:3000'') = js ''/''"
proof -
  have a: "startsWith (js ''//evil.example/..'') (js ''//'')"
    by (simp add: js_simps startsWith_def)
  have b: "includes_js (js ''//evil.example/..'') (js ''..'')"
    by (simp add: js_simps startsWith_def)
  have c: "startsWith (trim (js ''//evil.example/..'')) (js ''/'')"
    by (simp add: trim_def dropWhileEnd_def isWhiteSpace_def js_simps startsWith_def)
  show ?thesis
    using validateReturnTo_rejects [OF URL_parse_requires_scheme,
        of "js ''//evil.example/..''" "js ''http://localhost:3000''"]
      URL_parse_requires_scheme a b c
    by blast
qed

text \<open>
  Counterexample to C1 as stated: the same-origin absolute URL
  \<open>http://localhost:3000/chat.html?file=../x\<close> contains \<open>..\<close>, and the validator returns
  \<open>/chat.html?file=../x\<close>, not \<open>/\<close>.
\<close>

theorem validateReturnTo_dotdot_counterexample:
  "includes_js (js ''http://localhost:3000/chat.html?file=../x'') (js ''..'') \<and>
   validateReturnTo URL_parse (Some (JStr (js ''http://localhost:3000/chat.html?file=../x'')))
       (js ''http://localhost:3000'') = js ''/chat.html?file=../x'' \<and>
   js ''/chat.html?file=../x'' \<noteq> js ''/''"
proof -
  have "includes_js (js ''http://localhost:3000/chat.html?file=../x'') (js ''..'')"
    by (simp add: js_simps startsWith_def)
  moreover have "validateReturnTo URL_parse (Some (JStr (js ''http://localhost:3000/chat.html?file=../x'')))
       (js ''http://localhost:3000'') = js ''/chat.html?file=../x''"
    using trim_chat_query URL_parse_base URL_parse_chat_query
    by (simp add: validateReturnTo_def Let_def js_simps startsWith_def)
  moreover have "js ''/chat.html?file=../x'' \<noteq> js ''/''"
    by (simp add: js_simps)
  ultimately show ?thesis by blast
qed

text \<open>
  C2 (as amended). Let the platform's parser fail on inputs without a scheme. If the
  whitespace-trimmed \<open>returnTo\<close> parses as a URL whose origin equals the origin of the
  base URL, the validator returns exactly that URL's \<open>pathname + search + hash\<close>.
\<close>

theorem validateReturnTo_same_origin:
  assumes "requires_scheme new_URL"
    and "new_URL (trim s) = Some url"
    and "new_URL base_url = Some base"
    and "origin url = origin base"
  shows "validateReturnTo new_URL (Some (JStr s)) base_url = pathname url @ search url @ hash url"
proof -
  from assms(1,2) have t: "trim s \<noteq> []" "hd (trim s) \<noteq> 0x2F"
    unfolding requires_scheme_def by auto
  then have "s \<noteq> []"
    using trim_Nil by auto
  moreover from t have "\<not> startsWith (trim s) (js ''/'')"
    by (auto simp: js_simps startsWith_Cons)
  ultimately show ?thesis
    using assms(2-4) by (simp add: validateReturnTo_def Let_def)
qed

text \<open>
  Witness for C2: \<open>http://localhost:3000/chat.html?file=../x\<close> against the base
  \<open>http://localhost:3000\<close>.
\<close>

theorem validateReturnTo_same_origin_witness:
  "requires_scheme URL_parse \<and>
   URL_parse (trim (js ''http://localhost:3000/chat.html?file=../x'')) =
     Some \<lparr>origin = js ''http://localhost:3000'', pathname = js ''/chat.html'',
           search = js ''?file=../x'', hash = []\<rparr> \<and>
   URL_parse (js ''http://localhost:3000'') =
     Some \<lparr>origin = js ''http://localhost:3000'', pathname = js ''/'', search = [], hash = []\<rparr> \<and>
   validateReturnTo URL_parse (Some (JStr (js ''http://localhost:3000/chat.html?file=../x'')))
       (js ''http://localhost:3000'') = js ''/chat.html'' @ js ''?file=../x'' @ []"
proof -
  have p: "URL_parse (trim (js ''http://localhost:3000/chat.html?file=../x'')) =
     Some \<lparr>origin = js ''http://localhost:3000'', pathname = js ''/chat.html'',
           search = js ''?file=../x'', hash = []\<rparr>"
    by (simp only: trim_chat_query URL_parse_chat_query)
  show ?thesis
    using validateReturnTo_same_origin [OF URL_parse_requires_scheme p URL_parse_base]
      URL_parse_requires_scheme p URL_parse_base
    by simp
qed

text \<open>
  Counterexample to C2 as stated: \<open>http://localhost:3000/chat.html\<close> followed by a
  no-break space (U+00A0) is an absolute URL of the base's origin whose path is
  \<open>/chat.html%C2%A0\<close>: the URL parser keeps the trailing no-break space, which
  \<open>trim\<close> removes first. The validator returns \<open>/chat.html\<close>.
\<close>

theorem validateReturnTo_same_origin_counterexample:
  "URL_parse (js ''http://localhost:3000/chat.html'' @ [0xA0]) =
     Some \<lparr>origin = js ''http://localhost:3000'', pathname = js ''/chat.html%C2%A0'',
           search = [], hash = []\<rparr> \<and>
   URL_parse (js ''http://localhost:3000'') =
     Some \<lparr>origin = js ''http://localhost:3000'', pathname = js ''/'', search = [], hash = []\<rparr> \<and>
   validateReturnTo URL_parse (Some (JStr (js ''http://localhost:3000/chat.html'' @ [0xA0])))
       (js ''http://localhost:3000'') = js ''/chat.html'' \<and>
   js ''/chat.html'' \<noteq> js ''/chat.html%C2%A0''"
proof -
  have "validateReturnTo URL_parse (Some (JStr (js ''http://localhost:3000/chat.html'' @ [0xA0])))
       (js ''http://localhost:3000'') = js ''/chat.html''"
    using trim_chat_nbsp URL_parse_base URL_parse_chat
    by (simp add: validateReturnTo_def Let_def js_simps startsWith_def)
  moreover have "js ''/chat.html'' \<noteq> js ''/chat.html%C2%A0''"
    by (simp add: js_simps)
  ultimately show ?thesis
    using URL_parse_base URL_parse_chat_nbsp by blast
qed

section \<open>Properties of handleCallback\<close>

lemmas example_defs = example_config_def example_transaction_def example_session_def
  example_query_def example_client_def example_token_set_def

lemma getOidcClient_cached: "getOidcClient cfg discover (Some client) = (Inr client, Some client)"
  by (simp add: getOidcClient_def)

text \<open>
  C3 (the code at the failing inputs). The session carries a pending transaction, the
  client is at hand, the transaction is two seconds old and the state of the query matches.
  When the ID token's nonce differs from the stored one, \<open>handleCallback\<close> throws the
  nonce error and leaves the transaction on the session; when the code exchange is
  rejected, it throws and leaves the transaction on the session as well. Only the expiry
  and state checks delete the transaction before they throw.
\<close>

theorem handleCallback_keeps_transaction_on_late_failure:
  "handleCallback example_config (\<lambda>issuer. None) 2000
       (Some (example_client (Some (example_token_set (js ''nonce-2'') []))))
       example_session (example_query (js ''state-1''))
     = (Inl NonceMismatch, example_session,
        Some (example_client (Some (example_token_set (js ''nonce-2'') [])))) \<and>
   handleCallback example_config (\<lambda>issuer. None) 2000 (Some (example_client None))
       example_session (example_query (js ''state-1''))
     = (Inl CallbackRejected, example_session, Some (example_client None)) \<and>
   oidcTransaction example_session = Some example_transaction"
  by (simp add: handleCallback_def getOidcClient_cached TRANSACTION_TTL_def example_defs js_simps)

text \<open>
  C4 (as amended). If the OIDC client is at hand (cached, or \<open>getOidcClient\<close> creates it)
  and \<open>handleCallback\<close> runs on a session whose transaction is older than five minutes,
  it throws the transaction-expired error and the session carries no transaction
  afterwards.
\<close>

theorem handleCallback_expired:
  assumes "fst (getOidcClient cfg discover oidcClient) = Inr client"
    and "oidcTransaction sess = Some tx"
    and "now - createdAt tx > 5 * 60 * 1000"
  shows "fst (handleCallback cfg discover now oidcClient sess query) = Inl TransactionExpired \<and>
         oidcTransaction (fst (snd (handleCallback cfg discover now oidcClient sess query))) = None"
  using assms
  by (cases "getOidcClient cfg discover oidcClient")
     (simp add: handleCallback_def TRANSACTION_TTL_def)

text \<open>
  Witness for C4: a transaction created at 1000 ms, a callback at 400000 ms.
\<close>

theorem handleCallback_expired_witness:
  "fst (getOidcClient example_config (\<lambda>issuer. None) (Some (example_client None))) = Inr (example_client None) \<and>
   oidcTransaction example_session = Some example_transaction \<and>
   400000 - createdAt example_transaction > 5 * 60 * 1000 \<and>
   fst (handleCallback example_config (\<lambda>issuer. None) 400000 (Some (example_client None))
          example_session (example_query (js ''state-1''))) = Inl TransactionExpired \<and>
   oidcTransaction (fst (snd (handleCallback example_config (\<lambda>issuer. None) 400000
          (Some (example_client None)) example_session (example_query (js ''state-1''))))) = None"
proof -
  have a: "fst (getOidcClient example_config (\<lambda>issuer. None) (Some (example_client None))) = Inr (example_client None)"
    by (simp add: getOidcClient_cached)
  have b: "oidcTransaction example_session = Some example_transaction"
    by (simp add: example_session_def)
  have c: "400000 - createdAt example_transaction > 5 * 60 * 1000"
    by (simp add: example_transaction_def)
  show ?thesis
    using handleCallback_expired [OF a b c, of "example_query (js ''state-1'')"] a b c
    by blast
qed

text \<open>
  Counterexample to C4 as stated: no client is cached and discovery of the provider
  fails. \<open>handleCallback\<close> obtains the client before it reads the session, so the call
  throws the discovery error, and the expired transaction stays on the session.
\<close>

theorem handleCallback_expired_counterexample:
  "400000 - createdAt example_transaction > 5 * 60 * 1000 \<and>
   oidcTransaction example_session = Some example_transaction \<and>
   handleCallback example_config (\<lambda>issuer. None) 400000 None example_session
       (example_query (js ''state-1''))
     = (Inl DiscoveryFailed, example_session, None)"
  by (simp add: handleCallback_def getOidcClient_def example_defs js_simps)

text \<open>
  C5 (as amended). If the OIDC client is at hand and \<open>handleCallback\<close> runs on a session
  with a pending transaction and a callback query whose \<open>state\<close> is not the stored state,
  the call throws and the session carries no transaction afterwards; the error is the
  state-mismatch error when the transaction is at most five minutes old, and the
  transaction-expired error when it is older.
\<close>

theorem handleCallback_state_mismatch:
  assumes "fst (getOidcClient cfg discover oidcClient) = Inr client"
    and "oidcTransaction sess = Some tx"
    and "get_prop (Some query) (js ''state'') \<noteq> Some (JStr (state tx))"
  shows "oidcTransaction (fst (snd (handleCallback cfg discover now oidcClient sess query))) = None \<and>
         (now - createdAt tx \<le> 5 * 60 * 1000 \<longrightarrow>
            fst (handleCallback cfg discover now oidcClient sess query) = Inl StateMismatch) \<and>
         (now - createdAt tx > 5 * 60 * 1000 \<longrightarrow>
            fst (handleCallback cfg discover now oidcClient sess query) = Inl TransactionExpired)"
  using assms
  by (cases "getOidcClient cfg discover oidcClient")
     (simp add: handleCallback_def TRANSACTION_TTL_def)

text \<open>
  Witness for C5: the stored state is \<open>state-1\<close>, the query carries \<open>state-2\<close>; one
  callback two seconds after the login, one after 400 seconds.
\<close>

theorem handleCallback_state_mismatch_witness:
  "fst (getOidcClient example_config (\<lambda>issuer. None) (Some (example_client None))) = Inr (example_client None) \<and>
   oidcTransaction example_session = Some example_transaction \<and>
   get_prop (Some (example_query (js ''state-2''))) (js ''state'') \<noteq> Some (JStr (state example_transaction)) \<and>
   2000 - createdAt example_transaction \<le> 5 * 60 * 1000 \<and>
   fst (handleCallback example_config (\<lambda>issuer. None) 2000 (Some (example_client None))
          example_session (example_query (js ''state-2''))) = Inl StateMismatch \<and>
   oidcTransaction (fst (snd (handleCallback example_config (\<lambda>issuer. None) 2000
          (Some (example_client None)) example_session (example_query (js ''state-2''))))) = None \<and>
   400000 - createdAt example_transaction > 5 * 60 * 1000 \<and>
   fst (handleCallback example_config (\<lambda>issuer. None) 400000 (Some (example_client None))
          example_session (example_query (js ''state-2''))) = Inl TransactionExpired \<and>
   oidcTransaction (fst (snd (handleCallback example_config (\<lambda>issuer. None) 400000
          (Some (example_client None)) example_session (example_query (js ''state-2''))))) = None"
proof -
  have a: "fst (getOidcClient example_config (\<lambda>issuer. None) (Some (example_client None))) = Inr (example_client None)"
    by (simp add: getOidcClient_cached)
  have b: "oidcTransaction example_session = Some example_transaction"
    by (simp add: example_session_def)
  have c: "2000 - createdAt example_transaction \<le> 5 * 60 * 1000"
    by (simp add: example_transaction_def)
  have c': "400000 - createdAt example_transaction > 5 * 60 * 1000"
    by (simp add: example_transaction_def)
  have d: "get_prop (Some (example_query (js ''state-2''))) (js ''state'') \<noteq> Some (JStr (state example_transaction))"
    by (simp add: example_query_def example_transaction_def js_simps)
  show ?thesis
    using handleCallback_state_mismatch [OF a b d, of 2000]
      handleCallback_state_mismatch [OF a b d, of 400000] a b c c' d
    by blast
qed

text \<open>
  Counterexample to C5 as stated: the query's state differs from the stored one, and
  (first) the transaction is older than five minutes: the expiry check comes first, the
  error is the transaction-expired one and the transaction is cleared; (second) no client
  is cached and discovery fails: the error is the discovery error and the transaction
  stays.
\<close>

theorem handleCallback_state_mismatch_counterexample:
  "get_prop (Some (example_query (js ''state-2''))) (js ''state'') \<noteq> Some (JStr (state example_transaction)) \<and>
   oidcTransaction example_session = Some example_transaction \<and>
   handleCallback example_config (\<lambda>issuer. None) 400000 (Some (example_client None))
       example_session (example_query (js ''state-2''))
     = (Inl TransactionExpired, example_session\<lparr>oidcTransaction := None\<rparr>, Some (example_client None)) \<and>
   handleCallback example_config (\<lambda>issuer. None) 2000 None example_session
       (example_query (js ''state-2''))
     = (Inl DiscoveryFailed, example_session, None)"
  by (simp add: handleCallback_def getOidcClient_def TRANSACTION_TTL_def example_defs js_simps)

section \<open>Properties of checkGroupMembership\<close>

text \<open>
  C7. With an allowed group id configured, \<open>checkGroupMembership\<close> returns \<open>true\<close>
  exactly when the claims carry a \<open>groups\<close> array that contains the configured id; and
  when the claims carry neither a \<open>groups\<close> array nor a truthy \<open>_claim_names.groups\<close>,
  it throws the group-claim-missing error.
\<close>

theorem checkGroupMembership_decides:
  assumes "allowedGroupId (entra cfg) \<noteq> []"
  shows "(checkGroupMembership cfg claims tokenSet = Inr True \<longleftrightarrow>
            (\<exists>groups. get_prop (Some claims) (js ''groups'') = Some (JArr groups) \<and>
                      JStr (allowedGroupId (entra cfg)) \<in> set groups)) \<and>
         ((\<nexists>groups. get_prop (Some claims) (js ''groups'') = Some (JArr groups)) \<and>
            \<not> truthy (get_prop (get_prop (Some claims) (js ''_claim_names'')) (js ''groups'')) \<longrightarrow>
            checkGroupMembership cfg claims tokenSet = Inl GroupClaimMissing)"
proof (cases "get_prop (Some claims) (js ''groups'')")
  case None
  with assms show ?thesis
    by (simp add: checkGroupMembership_def)
next
  case (Some g)
  with assms show ?thesis
    by (cases g) (simp_all add: checkGroupMembership_def)
qed

text \<open>
  Witness for C7: the group \<open>group-1\<close> is configured; claims with the groups
  \<open>group-0\<close>, \<open>group-1\<close> authorize, claims with a subject only fail.
\<close>

theorem checkGroupMembership_decides_witness:
  "allowedGroupId (entra example_config) \<noteq> [] \<and>
   get_prop (Some example_claims_member) (js ''groups'')
     = Some (JArr [JStr (js ''group-0''), JStr (js ''group-1'')]) \<and>
   JStr (allowedGroupId (entra example_config)) \<in> set [JStr (js ''group-0''), JStr (js ''group-1'')] \<and>
   checkGroupMembership example_config example_claims_member
     (example_token_set (js ''nonce-1'') []) = Inr True \<and>
   (\<nexists>groups. get_prop (Some example_claims_no_groups) (js ''groups'') = Some (JArr groups)) \<and>
   \<not> truthy (get_prop (get_prop (Some example_claims_no_groups) (js ''_claim_names'')) (js ''groups'')) \<and>
   checkGroupMembership example_config example_claims_no_groups
     (example_token_set (js ''nonce-1'') []) = Inl GroupClaimMissing"
proof -
  have a: "allowedGroupId (entra example_config) \<noteq> []"
    by (simp add: example_config_def js_simps)
  have b: "get_prop (Some example_claims_member) (js ''groups'')
             = Some (JArr [JStr (js ''group-0''), JStr (js ''group-1'')])"
    by (simp add: example_claims_member_def js_simps)
  have c: "JStr (allowedGroupId (entra example_config)) \<in> set [JStr (js ''group-0''), JStr (js ''group-1'')]"
    by (simp add: example_config_def)
  have d: "\<nexists>groups. get_prop (Some example_claims_no_groups) (js ''groups'') = Some (JArr groups)"
    by (simp add: example_claims_no_groups_def js_simps)
  have e: "\<not> truthy (get_prop (get_prop (Some example_claims_no_groups) (js ''_claim_names'')) (js ''groups''))"
    by (simp add: example_claims_no_groups_def js_simps)
  show ?thesis
    using checkGroupMembership_decides [OF a, of example_claims_member "example_token_set (js ''nonce-1'') []"]
      checkGroupMembership_decides [OF a, of example_claims_no_groups "example_token_set (js ''nonce-1'') []"]
      a b c d e
    by blast
qed

section \<open>Properties of the callback route\<close>

lemma handleCallback_sid:
  "sid (fst (snd (handleCallback cfg discover now oidcClient sess query))) = sid sess"
  by (cases "getOidcClient cfg discover oidcClient")
     (auto simp: handleCallback_def split: sum.splits option.splits)









section \<open>Properties of the webhook proxy\<close>

lemma proxy_webhook_errors:
  "(\<not> session_authorized req \<and> \<not> legacy_token_valid jwt_verify cfg req \<longrightarrow>
      proxy_webhook jwt_verify fetch cfg req =
        (\<lparr>status = 401, headers = [],
          body = JsonBody (JObj [(js ''error'', JStr (js ''Not authenticated''))])\<rparr>, None)) \<and>
   ((session_authorized req \<or> legacy_token_valid jwt_verify cfg req) \<and> webhookUrl (n8n cfg) = [] \<longrightarrow>
      status (fst (proxy_webhook jwt_verify fetch cfg req)) = 500 \<and>
      snd (proxy_webhook jwt_verify fetch cfg req) = None)"
  by (auto simp: proxy_webhook_def proxy_route_def authenticateProxy_def forward_def)

lemma proxy_webhook_forwards:
  assumes "session_authorized req \<or> legacy_token_valid jwt_verify cfg req"
    and "webhookUrl (n8n cfg) \<noteq> []"
  shows "\<exists>sent.
           snd (proxy_webhook jwt_verify fetch cfg req) = Some sent \<and>
           fetch_url sent = webhookUrl (n8n cfg) \<and>
           fetch_method sent = req_method req \<and>
           map_of (fetch_headers sent) (js ''Authorization'') =
             Some (js ''Basic '' @ Buffer_base64 (username (n8n cfg) @ js '':'' @ password (n8n cfg))) \<and>
           (req_method req = js ''GET'' \<or> req_method req = js ''HEAD'' \<longrightarrow> fetch_body sent = None) \<and>
           (req_method req \<noteq> js ''GET'' \<and> req_method req \<noteq> js ''HEAD'' \<longrightarrow>
              (\<forall>b. req_body req = Some b \<and> truthy (Some b) \<longrightarrow> fetch_body sent = Some (JSON_stringify b)) \<and>
              (\<not> truthy (req_body req) \<longrightarrow> fetch_body sent = Some (js ''{}''))) \<and>
           (\<forall>upstream. fetch sent = Some upstream \<longrightarrow>
              status (fst (proxy_webhook jwt_verify fetch cfg req)) = upstream_status upstream \<and>
              headers (fst (proxy_webhook jwt_verify fetch cfg req)) =
                filter (\<lambda>(k, v). \<not> isHopHeader k) (upstream_headers upstream) \<and>
              body (fst (proxy_webhook jwt_verify fetch cfg req)) = SendBody (upstream_text upstream))"
proof -
  have auth: "authenticateProxy jwt_verify cfg req = Next"
    using assms(1) by (auto simp: authenticateProxy_def)
  have neq: "js ''Content-Type'' \<noteq> js ''Authorization''"
    by (simp add: js_simps)
  have empty: "JSON_stringify (JObj []) = js ''{}''"
    by (simp add: js_simps)
  let ?sent = "build_upstream_request cfg (webhookUrl (n8n cfg)) req"
  have p: "proxy_webhook jwt_verify fetch cfg req = forward fetch cfg (webhookUrl (n8n cfg)) req"
    by (simp add: proxy_webhook_def proxy_route_def auth)
  have s: "snd (proxy_webhook jwt_verify fetch cfg req) = Some ?sent"
    using assms(2) by (simp add: p forward_def split: option.splits)
  have h: "map_of (fetch_headers ?sent) (js ''Authorization'') =
             Some (js ''Basic '' @ Buffer_base64 (username (n8n cfg) @ js '':'' @ password (n8n cfg)))"
    using neq by (simp add: build_upstream_request_def)
  have b1: "req_method req = js ''GET'' \<or> req_method req = js ''HEAD'' \<longrightarrow> fetch_body ?sent = None"
    by (simp add: build_upstream_request_def)
  have b2: "req_method req \<noteq> js ''GET'' \<and> req_method req \<noteq> js ''HEAD'' \<longrightarrow>
              (\<forall>b. req_body req = Some b \<and> truthy (Some b) \<longrightarrow> fetch_body ?sent = Some (JSON_stringify b)) \<and>
              (\<not> truthy (req_body req) \<longrightarrow> fetch_body ?sent = Some (js ''{}''))"
    using empty by (simp add: build_upstream_request_def js_or_def)
  have r: "\<forall>upstream. fetch ?sent = Some upstream \<longrightarrow>
              status (fst (proxy_webhook jwt_verify fetch cfg req)) = upstream_status upstream \<and>
              headers (fst (proxy_webhook jwt_verify fetch cfg req)) =
                filter (\<lambda>(k, v). \<not> isHopHeader k) (upstream_headers upstream) \<and>
              body (fst (proxy_webhook jwt_verify fetch cfg req)) = SendBody (upstream_text upstream)"
    using assms(2) by (simp add: p forward_def)
  have u: "fetch_url ?sent = webhookUrl (n8n cfg)" "fetch_method ?sent = req_method req"
    by (simp_all add: build_upstream_request_def)
  show ?thesis
    using s h b1 b2 r u by blast
qed

lemma proxy_webhook_unconfigured:
  assumes "session_authorized req \<or> legacy_token_valid jwt_verify cfg req"
    and "webhookUrl (n8n cfg) = []"
  shows "status (fst (proxy_webhook jwt_verify fetch cfg req)) = 500 \<and>
         snd (proxy_webhook jwt_verify fetch cfg req) = None"
  using assms proxy_webhook_errors [of req jwt_verify cfg fetch] by blast

lemma proxy_webhook_upstream_fails:
  assumes "session_authorized req \<or> legacy_token_valid jwt_verify cfg req"
    and "webhookUrl (n8n cfg) \<noteq> []"
    and "fetch (build_upstream_request cfg (webhookUrl (n8n cfg)) req) = None"
  shows "status (fst (proxy_webhook jwt_verify fetch cfg req)) = 500"
proof -
  have "authenticateProxy jwt_verify cfg req = Next"
    using assms(1) by (auto simp: authenticateProxy_def)
  then show ?thesis
    using assms(2,3) by (simp add: proxy_webhook_def proxy_route_def forward_def)
qed

lemma proxy_webhook_sent:
  assumes "session_authorized req \<or> legacy_token_valid jwt_verify cfg req"
    and "webhookUrl (n8n cfg) \<noteq> []"
  shows "snd (proxy_webhook jwt_verify fetch cfg req) =
           Some (build_upstream_request cfg (webhookUrl (n8n cfg)) req)"
proof -
  have "authenticateProxy jwt_verify cfg req = Next"
    using assms(1) by (auto simp: authenticateProxy_def)
  then show ?thesis
    using assms(2) by (simp add: proxy_webhook_def proxy_route_def forward_def split: option.splits)
qed

lemma authenticateProxy_legacy:
  assumes "enablePasswordLogin (legacy cfg)"
    and "cookie_session req = Some (JStr token)"
    and "token \<noteq> []"
    and "jwt_verify (Some (JStr token)) (jwtSecret (legacy cfg))"
  shows "(\<forall>s. authenticateProxy jwt_verify cfg (req\<lparr>req_session := s\<rparr>) = Next) \<and>
         proxy_webhook jwt_verify fetch cfg req = forward fetch cfg (webhookUrl (n8n cfg)) req \<and>
         proxy_webhook_test jwt_verify fetch cfg req =
           forward fetch cfg
             (if webhookUrlTest (n8n cfg) \<noteq> [] then webhookUrlTest (n8n cfg) else webhookUrl (n8n cfg)) req"
proof -
  have "authenticateProxy jwt_verify cfg (req\<lparr>req_session := s\<rparr>) = Next" for s
    using assms by (simp add: authenticateProxy_def legacy_token_valid_def)
  from this this [of "req_session req"] show ?thesis
    by (simp add: proxy_webhook_def proxy_webhook_test_def proxy_route_def)
qed

lemma base64_user_pass: "Buffer_base64 (js ''user:pass'') = js ''dXNlcjpwYXNz''"
  by (simp add: Buffer_base64_def utf8_def utf8_bytes_def scalar_value_def isHighSurrogate_def
      isLowSurrogate_def b64_char_def js_simps)

lemma stringify_hello:
  "JSON_stringify (JObj [(js ''chatInput'', JStr (js ''hello''))]) =
     0x7B # 0x22 # js ''chatInput'' @ 0x22 # 0x3A # 0x22 # js ''hello'' @ [0x22, 0x7D]"
  by (simp add: QuoteJSONString_def quote_unit_def isHighSurrogate_def isLowSurrogate_def js_simps)

lemma example_middleware_accepts:
  "example_middleware u cookie (example_incoming (JSON_stringify example_payload))
     = Some (example_request u cookie)"
  by (simp add: example_middleware_def example_incoming_def)

lemma example_middleware_rejects:
  "example_middleware u cookie (example_incoming (js ''{'')) = None"
  using stringify_hello
  by (simp add: example_middleware_def example_incoming_def example_payload_def js_simps
      del: JSON_stringify.simps)

lemma example_rejected:
  "app_proxy_webhook (example_middleware u cookie) jwt_verify fetch cfg (example_incoming (js ''{''))
     = (\<lparr>status = 500, headers = [],
          body = JsonBody (JObj [(js ''error'', JStr (js ''Internal server error''))])\<rparr>, None) \<and>
   app_proxy_webhook_test (example_middleware u cookie) jwt_verify fetch cfg (example_incoming (js ''{''))
     = (\<lparr>status = 500, headers = [],
          body = JsonBody (JObj [(js ''error'', JStr (js ''Internal server error''))])\<rparr>, None)"
  by (simp only: app_proxy_webhook_def app_proxy_webhook_test_def example_middleware_rejects
        option.case error_handler_def)

text \<open>
  C8 (as amended). A request to \<open>/proxy/webhook\<close> that the middleware before the route
  ends with an error (a body that \<open>express.json\<close> cannot parse, for one) is answered by
  the error handler with status 500, whoever sends it. A request that reaches the route
  and carries neither an authorized session nor a valid legacy token is answered by
  status 401 and the body \<open>{"error":"Not authenticated"}\<close>, and nothing is sent upstream.
  A request that reaches the route and is authenticated is answered by status 500 when
  the webhook URL is not configured.
\<close>

theorem app_proxy_webhook_errors:
  "(middleware incoming = None \<longrightarrow>
      app_proxy_webhook middleware jwt_verify fetch cfg incoming = (\<lparr>status = 500, headers = [],
          body = JsonBody (JObj [(js ''error'', JStr (js ''Internal server error''))])\<rparr>, None)) \<and>
   (\<forall>req.
      middleware incoming = Some req \<and>
      \<not> session_authorized req \<and> \<not> legacy_token_valid jwt_verify cfg req \<longrightarrow>
      app_proxy_webhook middleware jwt_verify fetch cfg incoming = (\<lparr>status = 401, headers = [],
          body = JsonBody (JObj [(js ''error'', JStr (js ''Not authenticated''))])\<rparr>, None)) \<and>
   (\<forall>req.
      middleware incoming = Some req \<and>
      (session_authorized req \<or> legacy_token_valid jwt_verify cfg req) \<and>
      webhookUrl (n8n cfg) = [] \<longrightarrow>
      status (fst (app_proxy_webhook middleware jwt_verify fetch cfg incoming)) = 500 \<and>
      snd (app_proxy_webhook middleware jwt_verify fetch cfg incoming) = None)"
proof (intro conjI allI impI)
  assume "middleware incoming = None"
  then show "app_proxy_webhook middleware jwt_verify fetch cfg incoming = (\<lparr>status = 500, headers = [],
          body = JsonBody (JObj [(js ''error'', JStr (js ''Internal server error''))])\<rparr>, None)"
    by (simp add: app_proxy_webhook_def error_handler_def)
next
  fix req
  assume "middleware incoming = Some req \<and>
      \<not> session_authorized req \<and> \<not> legacy_token_valid jwt_verify cfg req"
  then show "app_proxy_webhook middleware jwt_verify fetch cfg incoming = (\<lparr>status = 401, headers = [],
          body = JsonBody (JObj [(js ''error'', JStr (js ''Not authenticated''))])\<rparr>, None)"
    using proxy_webhook_errors [of req jwt_verify cfg fetch]
    by (simp add: app_proxy_webhook_def)
next
  fix req
  assume a: "middleware incoming = Some req \<and>
      (session_authorized req \<or> legacy_token_valid jwt_verify cfg req) \<and>
      webhookUrl (n8n cfg) = []"
  then have "status (fst (proxy_webhook jwt_verify fetch cfg req)) = 500 \<and>
             snd (proxy_webhook jwt_verify fetch cfg req) = None"
    by (intro proxy_webhook_unconfigured) simp_all
  with a show "status (fst (app_proxy_webhook middleware jwt_verify fetch cfg incoming)) = 500"
    and "snd (app_proxy_webhook middleware jwt_verify fetch cfg incoming) = None"
    by (simp_all add: app_proxy_webhook_def)
qed

text \<open>
  Witness for C8: a request whose body is the text \<open>{\<close>; a request with a JSON body and
  without user and cookie; an authorized request with a JSON body against a
  configuration without webhook URL.
\<close>

theorem app_proxy_webhook_errors_witness:
  "example_middleware None None (example_incoming (js ''{'')) = None \<and>
   app_proxy_webhook (example_middleware None None) example_jwt_verify example_fetch example_config
       (example_incoming (js ''{'')) = (\<lparr>status = 500, headers = [],
          body = JsonBody (JObj [(js ''error'', JStr (js ''Internal server error''))])\<rparr>, None) \<and>
   example_middleware None None (example_incoming (JSON_stringify example_payload))
     = Some (example_request None None) \<and>
   \<not> session_authorized (example_request None None) \<and>
   \<not> legacy_token_valid example_jwt_verify example_config (example_request None None) \<and>
   app_proxy_webhook (example_middleware None None) example_jwt_verify example_fetch example_config
       (example_incoming (JSON_stringify example_payload)) = (\<lparr>status = 401, headers = [],
          body = JsonBody (JObj [(js ''error'', JStr (js ''Not authenticated''))])\<rparr>, None) \<and>
   example_middleware (Some (example_user True)) None (example_incoming (JSON_stringify example_payload))
     = Some (example_request (Some (example_user True)) None) \<and>
   session_authorized (example_request (Some (example_user True)) None) \<and>
   webhookUrl (n8n (example_config\<lparr>n8n := (n8n example_config)\<lparr>webhookUrl := []\<rparr>\<rparr>)) = [] \<and>
   status (fst (app_proxy_webhook (example_middleware (Some (example_user True)) None)
                  example_jwt_verify example_fetch
                  (example_config\<lparr>n8n := (n8n example_config)\<lparr>webhookUrl := []\<rparr>\<rparr>)
                  (example_incoming (JSON_stringify example_payload)))) = 500"
proof -
  let ?bad = "example_incoming (js ''{'')"
  let ?good = "example_incoming (JSON_stringify example_payload)"
  let ?nourl = "example_config\<lparr>n8n := (n8n example_config)\<lparr>webhookUrl := []\<rparr>\<rparr>"
  have r: "example_middleware None None ?bad = None"
    by (rule example_middleware_rejects)
  have p1: "example_middleware None None ?good = Some (example_request None None)"
    and p2: "example_middleware (Some (example_user True)) None ?good
               = Some (example_request (Some (example_user True)) None)"
    by (rule example_middleware_accepts)+
  have a: "\<not> session_authorized (example_request None None)"
    by (simp add: session_authorized_def example_request_def)
  have b: "\<not> legacy_token_valid example_jwt_verify example_config (example_request None None)"
    by (simp add: legacy_token_valid_def example_config_def)
  have c: "session_authorized (example_request (Some (example_user True)) None)"
    by (simp add: session_authorized_def example_request_def example_user_def)
  have d: "webhookUrl (n8n ?nourl) = []"
    by simp
  show ?thesis
    using app_proxy_webhook_errors
        [where middleware = "example_middleware None None" and incoming = "?bad"
           and jwt_verify = example_jwt_verify and fetch = example_fetch and cfg = example_config]
      app_proxy_webhook_errors
        [where middleware = "example_middleware None None" and incoming = "?good"
           and jwt_verify = example_jwt_verify and fetch = example_fetch and cfg = example_config]
      app_proxy_webhook_errors
        [where middleware = "example_middleware (Some (example_user True)) None" and incoming = "?good"
           and jwt_verify = example_jwt_verify and fetch = example_fetch and cfg = "?nourl"]
      r p1 p2 a b c d
    by metis
qed

text \<open>
  Counterexample to C8 as stated: a request to \<open>/proxy/webhook\<close> from a client with no
  user on its session and no \<open>session\<close> cookie, whose body is the text \<open>{\<close>: the body
  parser rejects it before \<open>authenticateProxy\<close> runs, and the answer is status 500, not
  401. With a JSON body the same client is answered 401.
\<close>

theorem app_proxy_webhook_errors_counterexample:
  "\<not> session_authorized (example_request None None) \<and>
   \<not> legacy_token_valid example_jwt_verify example_config (example_request None None) \<and>
   app_proxy_webhook (example_middleware None None) example_jwt_verify example_fetch example_config
       (example_incoming (JSON_stringify example_payload)) = (\<lparr>status = 401, headers = [],
          body = JsonBody (JObj [(js ''error'', JStr (js ''Not authenticated''))])\<rparr>, None) \<and>
   app_proxy_webhook (example_middleware None None) example_jwt_verify example_fetch example_config
       (example_incoming (js ''{'')) = (\<lparr>status = 500, headers = [],
          body = JsonBody (JObj [(js ''error'', JStr (js ''Internal server error''))])\<rparr>, None)"
proof -
  have a: "\<not> session_authorized (example_request None None)"
    by (simp add: session_authorized_def example_request_def)
  have b: "\<not> legacy_token_valid example_jwt_verify example_config (example_request None None)"
    by (simp add: legacy_token_valid_def example_config_def)
  have c: "app_proxy_webhook (example_middleware None None) example_jwt_verify example_fetch example_config
       (example_incoming (JSON_stringify example_payload)) = (\<lparr>status = 401, headers = [],
          body = JsonBody (JObj [(js ''error'', JStr (js ''Not authenticated''))])\<rparr>, None)"
    using a b proxy_webhook_errors [of "example_request None None" example_jwt_verify example_config example_fetch]
    by (simp only: app_proxy_webhook_def example_middleware_accepts option.case) simp
  show ?thesis
    using a b c example_rejected [of None None example_jwt_verify example_fetch example_config]
    by blast
qed

lemma example_build_upstream_request:
  "build_upstream_request example_config (js ''http://n8n.internal/webhook/chat'')
       (example_request (Some (example_user True)) None) =
     \<lparr>fetch_url = js ''http://n8n.internal/webhook/chat'',
      fetch_method = js ''POST'',
      fetch_headers =
        [(js ''Content-Type'', js ''application/json''),
         (js ''Authorization'', js ''Basic dXNlcjpwYXNz'')],
      fetch_body =
        Some (0x7B # 0x22 # js ''chatInput'' @ 0x22 # 0x3A # 0x22 # js ''hello'' @ [0x22, 0x7D])\<rparr>"
proof -
  have m: "js ''POST'' \<noteq> js ''GET''" "js ''POST'' \<noteq> js ''HEAD''" "js ''application/json'' \<noteq> []"
    by (simp_all add: js_simps)
  show ?thesis
    using m base64_user_pass stringify_hello
    by (simp add: build_upstream_request_def example_request_def example_config_def js_or_def
        js_simps del: JSON_stringify.simps)
qed

lemma example_proxy_webhook:
  "proxy_webhook example_jwt_verify example_fetch example_config
       (example_request (Some (example_user True)) None) =
     (\<lparr>status = 200,
       headers = [(js ''content-type'', js ''application/json''), (js ''x-request-id'', js ''42'')],
       body = SendBody (js ''ok'')\<rparr>,
      Some (build_upstream_request example_config (js ''http://n8n.internal/webhook/chat'')
             (example_request (Some (example_user True)) None)))"
proof -
  have a: "session_authorized (example_request (Some (example_user True)) None)"
    by (simp add: session_authorized_def example_request_def example_user_def)
  have b: "webhookUrl (n8n example_config) \<noteq> []"
    by (simp add: example_config_def js_simps)
  have h: "filter (\<lambda>(k, v). \<not> isHopHeader k) (upstream_headers example_upstream) =
             [(js ''content-type'', js ''application/json''), (js ''x-request-id'', js ''42'')]"
    by (simp add: example_upstream_def isHopHeader_def toAsciiLower_def asciiLower_def js_simps)
  show ?thesis
    using a b h
    by (simp add: proxy_webhook_def proxy_route_def authenticateProxy_def forward_def example_fetch_def)
       (simp add: example_config_def example_upstream_def)
qed

text \<open>
  C9 (as amended). Take a request to \<open>/proxy/webhook\<close> that reaches the route (the
  middleware before it, \<open>express.json\<close> among it, hands it on) and is authenticated. If
  the webhook URL is not configured, nothing is sent upstream and the answer is status
  500. If it is configured, the request is sent upstream with the request's method and
  the header \<open>Authorization: Basic base64(username:password)\<close>; with no body if the method
  is GET or HEAD, and else with \<open>JSON.stringify\<close> of the parsed body (of \<open>{}\<close> if
  \<open>req.body\<close> is falsy). When the upstream answers, the response takes its status code,
  sets every upstream header except \<open>transfer-encoding\<close>, \<open>content-encoding\<close> and
  \<open>connection\<close> (in any letter case), and sends the upstream text; when the upstream
  call fails, the answer is status 500.
\<close>

theorem app_proxy_webhook_forwards:
  assumes "middleware incoming = Some req"
    and "session_authorized req \<or> legacy_token_valid jwt_verify cfg req"
  shows "(webhookUrl (n8n cfg) = [] \<longrightarrow>
            snd (app_proxy_webhook middleware jwt_verify fetch cfg incoming) = None \<and>
            status (fst (app_proxy_webhook middleware jwt_verify fetch cfg incoming)) = 500) \<and>
         (webhookUrl (n8n cfg) \<noteq> [] \<longrightarrow>
            (\<exists>sent.
               snd (app_proxy_webhook middleware jwt_verify fetch cfg incoming) = Some sent \<and>
               fetch_url sent = webhookUrl (n8n cfg) \<and>
               fetch_method sent = req_method req \<and>
               map_of (fetch_headers sent) (js ''Authorization'') =
                 Some (js ''Basic '' @ Buffer_base64 (username (n8n cfg) @ js '':'' @ password (n8n cfg))) \<and>
               (req_method req = js ''GET'' \<or> req_method req = js ''HEAD'' \<longrightarrow>
                  fetch_body sent = None) \<and>
               (req_method req \<noteq> js ''GET'' \<and> req_method req \<noteq> js ''HEAD'' \<longrightarrow>
                  (\<forall>b. req_body req = Some b \<and> truthy (Some b) \<longrightarrow>
                     fetch_body sent = Some (JSON_stringify b)) \<and>
                  (\<not> truthy (req_body req) \<longrightarrow> fetch_body sent = Some (js ''{}''))) \<and>
               (\<forall>upstream. fetch sent = Some upstream \<longrightarrow>
                  status (fst (app_proxy_webhook middleware jwt_verify fetch cfg incoming))
                    = upstream_status upstream \<and>
                  headers (fst (app_proxy_webhook middleware jwt_verify fetch cfg incoming))
                    = filter (\<lambda>(k, v). \<not> isHopHeader k) (upstream_headers upstream) \<and>
                  body (fst (app_proxy_webhook middleware jwt_verify fetch cfg incoming))
                    = SendBody (upstream_text upstream)) \<and>
               (fetch sent = None \<longrightarrow>
                  status (fst (app_proxy_webhook middleware jwt_verify fetch cfg incoming)) = 500)))"
proof -
  have app: "app_proxy_webhook middleware jwt_verify fetch cfg incoming =
               proxy_webhook jwt_verify fetch cfg req"
    using assms(1) by (simp add: app_proxy_webhook_def)
  have unset: "snd (proxy_webhook jwt_verify fetch cfg req) = None \<and>
               status (fst (proxy_webhook jwt_verify fetch cfg req)) = 500"
    if "webhookUrl (n8n cfg) = []"
    using proxy_webhook_unconfigured [OF assms(2) that] by simp
  have set: "\<exists>sent.
               snd (proxy_webhook jwt_verify fetch cfg req) = Some sent \<and>
               fetch_url sent = webhookUrl (n8n cfg) \<and>
               fetch_method sent = req_method req \<and>
               map_of (fetch_headers sent) (js ''Authorization'') =
                 Some (js ''Basic '' @ Buffer_base64 (username (n8n cfg) @ js '':'' @ password (n8n cfg))) \<and>
               (req_method req = js ''GET'' \<or> req_method req = js ''HEAD'' \<longrightarrow>
                  fetch_body sent = None) \<and>
               (req_method req \<noteq> js ''GET'' \<and> req_method req \<noteq> js ''HEAD'' \<longrightarrow>
                  (\<forall>b. req_body req = Some b \<and> truthy (Some b) \<longrightarrow>
                     fetch_body sent = Some (JSON_stringify b)) \<and>
                  (\<not> truthy (req_body req) \<longrightarrow> fetch_body sent = Some (js ''{}''))) \<and>
               (\<forall>upstream. fetch sent = Some upstream \<longrightarrow>
                  status (fst (proxy_webhook jwt_verify fetch cfg req)) = upstream_status upstream \<and>
                  headers (fst (proxy_webhook jwt_verify fetch cfg req))
                    = filter (\<lambda>(k, v). \<not> isHopHeader k) (upstream_headers upstream) \<and>
                  body (fst (proxy_webhook jwt_verify fetch cfg req)) = SendBody (upstream_text upstream)) \<and>
               (fetch sent = None \<longrightarrow> status (fst (proxy_webhook jwt_verify fetch cfg req)) = 500)"
    if url: "webhookUrl (n8n cfg) \<noteq> []"
  proof -
    from proxy_webhook_forwards [OF assms(2) url, of fetch]
    obtain sent where s: "snd (proxy_webhook jwt_verify fetch cfg req) = Some sent"
      and rest: "fetch_url sent = webhookUrl (n8n cfg)"
        "fetch_method sent = req_method req"
        "map_of (fetch_headers sent) (js ''Authorization'') =
           Some (js ''Basic '' @ Buffer_base64 (username (n8n cfg) @ js '':'' @ password (n8n cfg)))"
        "req_method req = js ''GET'' \<or> req_method req = js ''HEAD'' \<longrightarrow> fetch_body sent = None"
        "req_method req \<noteq> js ''GET'' \<and> req_method req \<noteq> js ''HEAD'' \<longrightarrow>
           (\<forall>b. req_body req = Some b \<and> truthy (Some b) \<longrightarrow> fetch_body sent = Some (JSON_stringify b)) \<and>
           (\<not> truthy (req_body req) \<longrightarrow> fetch_body sent = Some (js ''{}''))"
        "\<forall>upstream. fetch sent = Some upstream \<longrightarrow>
           status (fst (proxy_webhook jwt_verify fetch cfg req)) = upstream_status upstream \<and>
           headers (fst (proxy_webhook jwt_verify fetch cfg req))
             = filter (\<lambda>(k, v). \<not> isHopHeader k) (upstream_headers upstream) \<and>
           body (fst (proxy_webhook jwt_verify fetch cfg req)) = SendBody (upstream_text upstream)"
      by blast
    have sent: "sent = build_upstream_request cfg (webhookUrl (n8n cfg)) req"
      using s proxy_webhook_sent [OF assms(2) url, of fetch] by simp
    have fail: "fetch sent = None \<longrightarrow> status (fst (proxy_webhook jwt_verify fetch cfg req)) = 500"
      using proxy_webhook_upstream_fails [OF assms(2) url, of fetch] sent by simp
    show ?thesis
      using s rest fail
      by (intro exI [of _ sent] conjI) assumption+
  qed
  show ?thesis
    unfolding app using unset set by blast
qed

text \<open>
  Witness for C9: an authorized POST of \<open>{"chatInput":"hello"}\<close>; the upstream answers
  200 with three headers, one of them \<open>Transfer-Encoding\<close>. The same request against a
  configuration without webhook URL is answered 500.
\<close>

theorem app_proxy_webhook_forwards_witness:
  "example_middleware (Some (example_user True)) None (example_incoming (JSON_stringify example_payload))
     = Some (example_request (Some (example_user True)) None) \<and>
   session_authorized (example_request (Some (example_user True)) None) \<and>
   webhookUrl (n8n example_config) \<noteq> [] \<and>
   app_proxy_webhook (example_middleware (Some (example_user True)) None) example_jwt_verify
       example_fetch example_config (example_incoming (JSON_stringify example_payload)) =
     (\<lparr>status = 200,
       headers = [(js ''content-type'', js ''application/json''), (js ''x-request-id'', js ''42'')],
       body = SendBody (js ''ok'')\<rparr>,
      Some \<lparr>fetch_url = js ''http://n8n.internal/webhook/chat'',
            fetch_method = js ''POST'',
            fetch_headers =
              [(js ''Content-Type'', js ''application/json''),
               (js ''Authorization'', js ''Basic dXNlcjpwYXNz'')],
            fetch_body =
              Some (0x7B # 0x22 # js ''chatInput'' @ 0x22 # 0x3A # 0x22 # js ''hello'' @ [0x22, 0x7D])\<rparr>) \<and>
   webhookUrl (n8n (example_config\<lparr>n8n := (n8n example_config)\<lparr>webhookUrl := []\<rparr>\<rparr>)) = [] \<and>
   status (fst (app_proxy_webhook (example_middleware (Some (example_user True)) None)
                  example_jwt_verify example_fetch
                  (example_config\<lparr>n8n := (n8n example_config)\<lparr>webhookUrl := []\<rparr>\<rparr>)
                  (example_incoming (JSON_stringify example_payload)))) = 500"
proof -
  let ?mw = "example_middleware (Some (example_user True)) None"
  let ?good = "example_incoming (JSON_stringify example_payload)"
  let ?req = "example_request (Some (example_user True)) None"
  let ?nourl = "example_config\<lparr>n8n := (n8n example_config)\<lparr>webhookUrl := []\<rparr>\<rparr>"
  have p: "?mw ?good = Some ?req"
    by (rule example_middleware_accepts)
  have a: "session_authorized ?req"
    by (simp add: session_authorized_def example_request_def example_user_def)
  have a': "session_authorized ?req \<or> legacy_token_valid jwt_verify cfg ?req" for jwt_verify cfg
    using a by simp
  have b: "webhookUrl (n8n example_config) \<noteq> []"
    by (simp add: example_config_def js_simps)
  have d: "webhookUrl (n8n ?nourl) = []"
    by simp
  have e: "app_proxy_webhook ?mw example_jwt_verify example_fetch example_config ?good =
     (\<lparr>status = 200,
       headers = [(js ''content-type'', js ''application/json''), (js ''x-request-id'', js ''42'')],
       body = SendBody (js ''ok'')\<rparr>,
      Some \<lparr>fetch_url = js ''http://n8n.internal/webhook/chat'',
            fetch_method = js ''POST'',
            fetch_headers =
              [(js ''Content-Type'', js ''application/json''),
               (js ''Authorization'', js ''Basic dXNlcjpwYXNz'')],
            fetch_body =
              Some (0x7B # 0x22 # js ''chatInput'' @ 0x22 # 0x3A # 0x22 # js ''hello'' @ [0x22, 0x7D])\<rparr>)"
    by (simp only: app_proxy_webhook_def p option.case example_proxy_webhook
          example_build_upstream_request)
  show ?thesis
    using app_proxy_webhook_forwards
        [where middleware = "?mw" and incoming = "?good" and req = "?req"
           and jwt_verify = example_jwt_verify and fetch = example_fetch and cfg = "?nourl", OF p a']
      app_proxy_webhook_forwards
        [where middleware = "?mw" and incoming = "?good" and req = "?req"
           and jwt_verify = example_jwt_verify and fetch = example_fetch and cfg = example_config, OF p a']
      p a b d e
    by blast
qed

text \<open>
  Counterexample to C9 as stated: an authorized POST whose body is the text \<open>{\<close> is
  rejected by the body parser: nothing is sent upstream and the answer is status 500. An
  authorized POST with a JSON body against a configuration without webhook URL: nothing
  is sent upstream either.
\<close>

theorem app_proxy_webhook_forwards_counterexample:
  "session_authorized (example_request (Some (example_user True)) None) \<and>
   app_proxy_webhook (example_middleware (Some (example_user True)) None) example_jwt_verify
       example_fetch example_config (example_incoming (js ''{'')) = (\<lparr>status = 500, headers = [],
          body = JsonBody (JObj [(js ''error'', JStr (js ''Internal server error''))])\<rparr>, None) \<and>
   app_proxy_webhook (example_middleware (Some (example_user True)) None) example_jwt_verify
       example_fetch (example_config\<lparr>n8n := (n8n example_config)\<lparr>webhookUrl := []\<rparr>\<rparr>)
       (example_incoming (JSON_stringify example_payload)) =
     (\<lparr>status = 500, headers = [],
       body = JsonBody (JObj [(js ''error'', JStr (js ''N8N webhook URL not configured''))])\<rparr>, None)"
proof -
  have a: "session_authorized (example_request (Some (example_user True)) None)"
    by (simp add: session_authorized_def example_request_def example_user_def)
  have c: "app_proxy_webhook (example_middleware (Some (example_user True)) None) example_jwt_verify
       example_fetch (example_config\<lparr>n8n := (n8n example_config)\<lparr>webhookUrl := []\<rparr>\<rparr>)
       (example_incoming (JSON_stringify example_payload)) =
     (\<lparr>status = 500, headers = [],
       body = JsonBody (JObj [(js ''error'', JStr (js ''N8N webhook URL not configured''))])\<rparr>, None)"
    using a
    by (simp only: app_proxy_webhook_def example_middleware_accepts option.case)
       (simp add: proxy_webhook_def proxy_route_def authenticateProxy_def forward_def)
  show ?thesis
    using a c example_rejected [of "Some (example_user True)" None example_jwt_verify example_fetch example_config]
    by blast
qed

text \<open>
  C10 (as amended). With legacy password login enabled, a request that reaches the route
  (the middleware before it, \<open>express.json\<close> among it, hands it on) and whose \<open>session\<close>
  cookie holds a token that verifies against the legacy secret passes
  \<open>authenticateProxy\<close> whatever its session holds (no user, or a user who is not
  authorized), on \<open>/proxy/webhook\<close> and on \<open>/proxy/webhook-test\<close>: both routes run their
  forwarding handler.
\<close>

theorem app_proxy_legacy_admitted:
  assumes "enablePasswordLogin (legacy cfg)"
    and "middleware incoming = Some req"
    and "cookie_session req = Some (JStr token)"
    and "token \<noteq> []"
    and "jwt_verify (Some (JStr token)) (jwtSecret (legacy cfg))"
  shows "(\<forall>s. authenticateProxy jwt_verify cfg (req\<lparr>req_session := s\<rparr>) = Next) \<and>
         app_proxy_webhook middleware jwt_verify fetch cfg incoming =
           forward fetch cfg (webhookUrl (n8n cfg)) req \<and>
         app_proxy_webhook_test middleware jwt_verify fetch cfg incoming =
           forward fetch cfg
             (if webhookUrlTest (n8n cfg) \<noteq> [] then webhookUrlTest (n8n cfg) else webhookUrl (n8n cfg))
             req"
  using authenticateProxy_legacy
      [where cfg = cfg and req = req and token = token and jwt_verify = jwt_verify and fetch = fetch,
        OF assms(1,3,4,5)]
  by (simp add: app_proxy_webhook_def app_proxy_webhook_test_def assms(2))

text \<open>
  Witness for C10: the session's user is not in the allowed group, the cookie holds the
  valid token, the body is JSON.
\<close>

theorem app_proxy_legacy_admitted_witness:
  "enablePasswordLogin (legacy example_legacy_config) \<and>
   example_middleware (Some (example_user False)) (Some (JStr (js ''signed:legacy-secret'')))
       (example_incoming (JSON_stringify example_payload))
     = Some (example_request (Some (example_user False)) (Some (JStr (js ''signed:legacy-secret'')))) \<and>
   cookie_session (example_request (Some (example_user False)) (Some (JStr (js ''signed:legacy-secret''))))
     = Some (JStr (js ''signed:legacy-secret'')) \<and>
   js ''signed:legacy-secret'' \<noteq> [] \<and>
   example_jwt_verify (Some (JStr (js ''signed:legacy-secret''))) (jwtSecret (legacy example_legacy_config)) \<and>
   \<not> session_authorized (example_request (Some (example_user False)) (Some (JStr (js ''signed:legacy-secret'')))) \<and>
   app_proxy_webhook
       (example_middleware (Some (example_user False)) (Some (JStr (js ''signed:legacy-secret''))))
       example_jwt_verify example_fetch example_legacy_config
       (example_incoming (JSON_stringify example_payload)) =
     forward example_fetch example_legacy_config (webhookUrl (n8n example_legacy_config))
       (example_request (Some (example_user False)) (Some (JStr (js ''signed:legacy-secret''))))"
proof -
  let ?mw = "example_middleware (Some (example_user False)) (Some (JStr (js ''signed:legacy-secret'')))"
  let ?good = "example_incoming (JSON_stringify example_payload)"
  let ?req = "example_request (Some (example_user False)) (Some (JStr (js ''signed:legacy-secret'')))"
  have a: "enablePasswordLogin (legacy example_legacy_config)"
    by (simp add: example_legacy_config_def)
  have p: "?mw ?good = Some ?req"
    by (rule example_middleware_accepts)
  have b: "cookie_session ?req = Some (JStr (js ''signed:legacy-secret''))"
    by (simp add: example_request_def)
  have c: "js ''signed:legacy-secret'' \<noteq> []"
    by (simp add: js_simps)
  have d: "example_jwt_verify (Some (JStr (js ''signed:legacy-secret''))) (jwtSecret (legacy example_legacy_config))"
    by (simp add: example_jwt_verify_def example_legacy_config_def js_simps)
  have e: "\<not> session_authorized ?req"
    by (simp add: session_authorized_def example_request_def example_user_def)
  show ?thesis
    using app_proxy_legacy_admitted
        [where cfg = example_legacy_config and middleware = "?mw" and incoming = "?good"
           and req = "?req" and token = "js ''signed:legacy-secret''"
           and jwt_verify = example_jwt_verify and fetch = example_fetch, OF a p b c d]
      a p b c d e
    by blast
qed

text \<open>
  Counterexample to C10 as stated: legacy login is enabled and the \<open>session\<close> cookie
  holds the valid token, but the body is the text \<open>{\<close>: the body parser rejects the
  request before \<open>authenticateProxy\<close> runs, and both routes answer status 500 without
  forwarding.
\<close>

theorem app_proxy_legacy_admitted_counterexample:
  "enablePasswordLogin (legacy example_legacy_config) \<and>
   example_jwt_verify (Some (JStr (js ''signed:legacy-secret''))) (jwtSecret (legacy example_legacy_config)) \<and>
   app_proxy_webhook
       (example_middleware (Some (example_user False)) (Some (JStr (js ''signed:legacy-secret''))))
       example_jwt_verify example_fetch example_legacy_config (example_incoming (js ''{'')) = (\<lparr>status = 500, headers = [],
          body = JsonBody (JObj [(js ''error'', JStr (js ''Internal server error''))])\<rparr>, None) \<and>
   app_proxy_webhook_test
       (example_middleware (Some (example_user False)) (Some (JStr (js ''signed:legacy-secret''))))
       example_jwt_verify example_fetch example_legacy_config (example_incoming (js ''{'')) = (\<lparr>status = 500, headers = [],
          body = JsonBody (JObj [(js ''error'', JStr (js ''Internal server error''))])\<rparr>, None)"
proof -
  have a: "enablePasswordLogin (legacy example_legacy_config)"
    by (simp add: example_legacy_config_def)
  have d: "example_jwt_verify (Some (JStr (js ''signed:legacy-secret''))) (jwtSecret (legacy example_legacy_config))"
    by (simp add: example_jwt_verify_def example_legacy_config_def js_simps)
  show ?thesis
    using a d example_rejected
        [of "Some (example_user False)" "Some (JStr (js ''signed:legacy-secret''))"
            example_jwt_verify example_fetch example_legacy_config]
    by blast
qed

end
